theory Spec2Isabelle
  imports Main "HOL-Library.AList" "HOL-Library.Sublist"
begin

section \<open>Docker-Builder: the build endpoint of backend/app.py\<close>

text \<open>
  A shallow embedding of \<^verbatim>\<open>src/backend/app.py\<close>.  The handler \<^verbatim>\<open>build_image\<close> and the
  functions it calls are translated one by one.  Everything the code does to the outside
  (the filesystem, the \<^verbatim>\<open>git\<close> subprocess, the container engine, the clock, the logger)
  is explicit: a \<open>world\<close> value is threaded through the functions, every external call
  appends an event to its trace, and the outcome of a call that the program cannot
  determine is read from an \<open>env\<close> value (the external collaborators).  A Python exception
  is a value of type \<open>exn\<close>; a function that can raise returns \<open>exn + 'a\<close>.
\<close>

subsection \<open>Python strings\<close>

text \<open>
  A Python \<^verbatim>\<open>str\<close> is a \<open>string\<close>; a \<open>char\<close> stands for a code point below 256.
  \<^verbatim>\<open>str.strip()\<close> removes the white space code points of that range at both ends.
\<close>

definition is_space :: "char \<Rightarrow> bool" where
  "is_space c = (c \<in> set [CHR 0x09, CHR 0x0A, CHR 0x0B, CHR 0x0C, CHR 0x0D, CHR 0x1C,
                            CHR 0x1D, CHR 0x1E, CHR 0x1F, CHR 0x20, CHR 0x85, CHR 0xA0])"

definition py_strip :: "string \<Rightarrow> string" where
  "py_strip s = rev (dropWhile is_space (rev (dropWhile is_space s)))"

text \<open>\<^verbatim>\<open>str.lower()\<close>: the letters A-Z and the upper-case letters of Latin-1.\<close>

definition py_lower_char :: "char \<Rightarrow> char" where
  "py_lower_char c =
     (let n = (of_char c :: nat) in
      if (65 \<le> n \<and> n \<le> 90) \<or> (192 \<le> n \<and> n \<le> 222 \<and> n \<noteq> 215)
      then char_of (n + 32) else c)"

definition py_lower :: "string \<Rightarrow> string" where
  "py_lower s = map py_lower_char s"

text \<open>\<^verbatim>\<open>needle in hay\<close> on strings: \<open>needle\<close> occurs as a contiguous piece of \<open>hay\<close>.\<close>

primrec py_in :: "string \<Rightarrow> string \<Rightarrow> bool" where
  "py_in needle [] = (needle = [])"
| "py_in needle (c # cs) = (take (length needle) (c # cs) = needle \<or> py_in needle cs)"

text \<open>\<^verbatim>\<open>s.replace('.', '-')\<close>.\<close>

definition replace_dots :: "string \<Rightarrow> string" where
  "replace_dots s = map (\<lambda>c. if c = CHR ''.'' then CHR ''-'' else c) s"

text \<open>\<^verbatim>\<open>str(n)\<close> for a natural number, and a name between single quotes.\<close>

fun str_nat :: "nat \<Rightarrow> string" where
  "str_nat n = (if n < 10 then [char_of (48 + n)]
                else str_nat (n div 10) @ [char_of (48 + n mod 10)])"

declare str_nat.simps [simp del]

definition quoted :: "string \<Rightarrow> string" where
  "quoted s = [CHR 0x27] @ s @ [CHR 0x27]"

subsection \<open>Exceptions\<close>

text \<open>
  The exception classes the code raises or catches, each with the text \<^verbatim>\<open>str(e)\<close> gives;
  \<open>CalledProcessError\<close> carries the captured \<^verbatim>\<open>stderr\<close> of the subprocess, \<open>BuildError\<close>
  its \<^verbatim>\<open>msg\<close>.  \<open>OtherException\<close> stands for every class the code does not name.
  The text of a \<open>CalledProcessError\<close> (the command and its exit status) is shortened: the
  code reads only its \<^verbatim>\<open>stderr\<close>.
\<close>

datatype exn =
    AttributeError string
  | ValueError string
  | RuntimeError string
  | IndexError string
  | OSError string
  | BadRequest string
  | CalledProcessError string
  | BuildError string
  | APIError string
  | OtherException string

fun str_exn :: "exn \<Rightarrow> string" where
  "str_exn (AttributeError m) = m"
| "str_exn (ValueError m) = m"
| "str_exn (RuntimeError m) = m"
| "str_exn (IndexError m) = m"
| "str_exn (OSError m) = m"
| "str_exn (BadRequest m) = m"
| "str_exn (CalledProcessError err) = ''Command returned non-zero exit status''"
| "str_exn (BuildError m) = m"
| "str_exn (APIError m) = m"
| "str_exn (OtherException m) = m"

subsection \<open>The world: filesystem, trace of external calls, log\<close>

text \<open>
  A directory is the list of the files at its root, name and content.  The filesystem
  maps the path of a directory to its content; \<open>None\<close> is a path that does not exist.
\<close>

type_synonym path = string
type_synonym dir = "(string \<times> string) list"

datatype event =
    Exists path
  | Rmtree path
  | Mkdir path
  | Sleep nat
  | GitClone string path
  | OpenWrite path
  | ImagesBuild path "dir option" string

datatype level = INFO | WARNING | ERROR

record world =
  fs :: "path \<Rightarrow> dir option"
  trace :: "event list"
  logged :: "(level \<times> string) list"

text \<open>
  The external collaborators.  \<open>client\<close> is the module-level engine handle (\<open>False\<close>: it
  is \<^verbatim>\<open>None\<close>).  \<open>urlparse\<close> and \<open>path_stem\<close> are the library functions
  \<^verbatim>\<open>urllib.parse.urlparse\<close> and \<^verbatim>\<open>Path(...).stem\<close>.  The others decide what an external
  call does: whether the operating system refuses a path (a name over 255 bytes, a
  directory that may not be searched) and with which \<^verbatim>\<open>OSError\<close>, what a \<^verbatim>\<open>rmtree\<close> that
  ignores errors leaves behind (\<open>None\<close>: the directory is gone), whether \<^verbatim>\<open>mkdir\<close> or
  \<^verbatim>\<open>open\<close> raises for another reason, what \<^verbatim>\<open>git clone\<close> fetches or how it fails, and what
  the engine returns for a build context and a tag.  The number given to an oracle is
  the number of external calls made before this one.  That a path is refused is a
  property of the path and lasts through the request.
\<close>

record parsed_url =
  scheme :: string
  netloc :: string
  url_path :: string

record image =
  tags :: "string list"

type_synonym log_event = "(string \<times> string) list"

record env =
  client :: bool
  urlparse :: "string \<Rightarrow> exn + parsed_url"
  path_stem :: "string \<Rightarrow> string"
  path_error :: "path \<Rightarrow> exn option"
  rmtree_leaves :: "nat \<Rightarrow> dir \<Rightarrow> dir option"
  mkdir_error :: "nat \<Rightarrow> exn option"
  git_clone :: "string \<Rightarrow> exn + dir"
  open_error :: "nat \<Rightarrow> exn option"
  images_build :: "dir option \<Rightarrow> string \<Rightarrow> exn + (image \<times> log_event list)"

definition emit :: "event \<Rightarrow> world \<Rightarrow> world" where
  "emit e w = w\<lparr>trace := trace w @ [e]\<rparr>"

definition logger :: "level \<Rightarrow> string \<Rightarrow> world \<Rightarrow> world" where
  "logger l m w = w\<lparr>logged := logged w @ [(l, m)]\<rparr>"

definition now :: "world \<Rightarrow> nat" where
  "now w = length (trace w)"

text \<open>The directory a path lies in: the path up to its last \<^verbatim>\<open>/\<close>.\<close>

definition parent_of :: "path \<Rightarrow> path" where
  "parent_of p = rev (drop 1 (dropWhile (\<lambda>c. c \<noteq> CHR ''/'') (rev p)))"

text \<open>
  \<^verbatim>\<open>build_dir.exists()\<close> calls \<^verbatim>\<open>stat\<close>.  It answers \<open>False\<close> when the path or the
  directory it lies in is missing (the errors \<^verbatim>\<open>ENOENT\<close> and \<^verbatim>\<open>ENOTDIR\<close> are swallowed)
  and raises every other \<^verbatim>\<open>OSError\<close>: the one the operating system gives for a path it
  refuses.
\<close>

definition dir_exists :: "env \<Rightarrow> path \<Rightarrow> world \<Rightarrow> (exn + bool) \<times> world" where
  "dir_exists env p w =
     ((if fs w p \<noteq> None then Inr True
       else if fs w (parent_of p) = None then Inr False
       else (case path_error env p of Some e \<Rightarrow> Inl e | None \<Rightarrow> Inr False)),
      emit (Exists p) w)"

text \<open>
  \<^verbatim>\<open>(build_dir / name).exists()\<close>, called on a file of a workspace the clone has filled:
  a read of the directory.
\<close>

definition file_exists :: "path \<Rightarrow> string \<Rightarrow> world \<Rightarrow> bool \<times> world" where
  "file_exists p name w =
     ((case fs w p of None \<Rightarrow> False | Some d \<Rightarrow> map_of d name \<noteq> None),
      emit (Exists (p @ ''/'' @ name)) w)"

text \<open>
  \<^verbatim>\<open>shutil.rmtree(p, ignore_errors=True)\<close> never raises: a removal that fails leaves
  the directory, or a part of it, in place.
\<close>

definition rmtree :: "env \<Rightarrow> path \<Rightarrow> world \<Rightarrow> world" where
  "rmtree env p w =
     (case fs w p of
        None \<Rightarrow> emit (Rmtree p) w
      | Some d \<Rightarrow> emit (Rmtree p) (w\<lparr>fs := (fs w)(p := rmtree_leaves env (now w) d)\<rparr>))"

text \<open>
  \<^verbatim>\<open>p.mkdir(parents=True, exist_ok=True)\<close>: a missing parent directory is created
  first, an existing directory is left as it is, and the call raises for a path the
  operating system refuses.
\<close>

definition mkdir :: "env \<Rightarrow> path \<Rightarrow> world \<Rightarrow> (exn + unit) \<times> world" where
  "mkdir env p w =
     (let w1 = (if parent_of p \<noteq> p \<and> fs w (parent_of p) = None
                then w\<lparr>fs := (fs w)(parent_of p \<mapsto> [])\<rparr> else w)
      in case path_error env p of
           Some e \<Rightarrow> (Inl e, emit (Mkdir p) w1)
         | None \<Rightarrow>
             (case mkdir_error env (now w) of
                Some e \<Rightarrow> (Inl e, emit (Mkdir p) w1)
              | None \<Rightarrow>
                  (Inr (), emit (Mkdir p)
                             (if fs w1 p = None then w1\<lparr>fs := (fs w1)(p \<mapsto> [])\<rparr> else w1))))"

text \<open>\<^verbatim>\<open>with open(p / name, 'w') as f: f.write(content)\<close>.\<close>

definition write_file :: "env \<Rightarrow> path \<Rightarrow> string \<Rightarrow> string \<Rightarrow> world \<Rightarrow> (exn + unit) \<times> world" where
  "write_file env p name content w =
     (case open_error env (now w) of
        Some e \<Rightarrow> (Inl e, emit (OpenWrite (p @ ''/'' @ name)) w)
      | None \<Rightarrow>
          (case fs w p of
             None \<Rightarrow> (Inl (OSError ''No such file or directory''),
                       emit (OpenWrite (p @ ''/'' @ name)) w)
           | Some d \<Rightarrow>
               (Inr (), emit (OpenWrite (p @ ''/'' @ name))
                          (w\<lparr>fs := (fs w)(p \<mapsto> AList.update name content d)\<rparr>))))"

subsection \<open>DOCKERFILE_TEMPLATES\<close>

datatype project_type = Static | Node | Default

fun project_type_name :: "project_type \<Rightarrow> string" where
  "project_type_name Static = ''static''"
| "project_type_name Node = ''node''"
| "project_type_name Default = ''default''"

definition static_template :: string where
  \<open>static_template =
     ''FROM nginx:alpine\<newline>COPY . /usr/share/nginx/html\<newline>EXPOSE 80\<newline>CMD ["nginx", "-g", "daemon off;"]''\<close>

definition node_template :: string where
  \<open>node_template =
     ''FROM node:16-alpine\<newline>WORKDIR /app\<newline>COPY package*.json ./\<newline>RUN npm install\<newline>COPY . .\<newline>CMD ["npm", "start"]''\<close>

definition default_template :: string where
  \<open>default_template =
     ''FROM alpine\<newline>COPY . /app\<newline>WORKDIR /app\<newline>CMD ["ls", "-la"]''\<close>

fun DOCKERFILE_TEMPLATES :: "project_type \<Rightarrow> string" where
  "DOCKERFILE_TEMPLATES Static = static_template"
| "DOCKERFILE_TEMPLATES Node = node_template"
| "DOCKERFILE_TEMPLATES Default = default_template"

subsection \<open>clean_build_dir\<close>

text \<open>One pass through the \<^verbatim>\<open>try\<close> body of the loop (lines 63-66).\<close>

definition clean_attempt :: "env \<Rightarrow> path \<Rightarrow> world \<Rightarrow> (exn + unit) \<times> world" where
  "clean_attempt env build_dir w =
     (case dir_exists env build_dir w of
        (Inl e, w1) \<Rightarrow> (Inl e, w1)
      | (Inr ex, w1) \<Rightarrow> mkdir env build_dir (if ex then rmtree env build_dir w1 else w1))"

text \<open>
  The \<^verbatim>\<open>except Exception as e\<close> clause of the loop (lines 67-69): the failure is
  logged, then \<^verbatim>\<open>time.sleep(1)\<close>.
\<close>

definition clean_failed :: "nat \<Rightarrow> exn \<Rightarrow> world \<Rightarrow> world" where
  "clean_failed attempt e w =
     emit (Sleep 1)
       (logger WARNING
          (''Clean failed (attempt '' @ str_nat (attempt + 1) @ ''): '' @ str_exn e) w)"

text \<open>
  The loop over \<^verbatim>\<open>range(3)\<close>: a pass that returns ends the function; when the range
  is used up the function raises \<^verbatim>\<open>RuntimeError\<close>.
\<close>

fun clean_loop :: "env \<Rightarrow> path \<Rightarrow> nat list \<Rightarrow> world \<Rightarrow> (exn + unit) \<times> world" where
  "clean_loop env build_dir [] w =
     (Inl (RuntimeError (''Failed to clean build directory after 3 attempts: '' @ build_dir)), w)"
| "clean_loop env build_dir (attempt # rest) w =
     (case clean_attempt env build_dir w of
        (Inr u, w1) \<Rightarrow> (Inr u, w1)
      | (Inl e, w1) \<Rightarrow> clean_loop env build_dir rest (clean_failed attempt e w1))"

definition clean_build_dir :: "env \<Rightarrow> path \<Rightarrow> world \<Rightarrow> (exn + unit) \<times> world" where
  "clean_build_dir env build_dir w = clean_loop env build_dir [0..<3] w"

subsection \<open>clone_repository\<close>

text \<open>
  \<^verbatim>\<open>subprocess.run(['git', 'clone', '--depth', '1', repo_url, str(build_dir)], check=True, ...)\<close>:
  on exit status 0 the directory holds the fetched files; a non-zero status raises
  \<open>CalledProcessError\<close>; the call can raise other exceptions (no \<^verbatim>\<open>git\<close> program).
\<close>

definition subprocess_run_git_clone ::
    "env \<Rightarrow> string \<Rightarrow> path \<Rightarrow> world \<Rightarrow> (exn + unit) \<times> world" where
  "subprocess_run_git_clone env repo_url build_dir w =
     (case git_clone env repo_url of
        Inl e \<Rightarrow> (Inl e, emit (GitClone repo_url build_dir) w)
      | Inr files \<Rightarrow>
          (Inr (), emit (GitClone repo_url build_dir) (w\<lparr>fs := (fs w)(build_dir \<mapsto> files)\<rparr>)))"

text \<open>The handler of \<^verbatim>\<open>except subprocess.CalledProcessError as e\<close> (lines 84-90).\<close>

fun clone_except :: "exn \<Rightarrow> exn" where
  "clone_except (CalledProcessError err) =
     (let error_msg = py_strip err in
      if py_in ''Repository not found'' error_msg
      then ValueError ''Repository not found or private (needs access token)''
      else if py_in ''could not read Username'' error_msg
      then ValueError ''Authentication failed - use HTTPS with token''
      else RuntimeError (''Git clone failed: '' @ error_msg))"
| "clone_except e = e"

definition clone_repository :: "env \<Rightarrow> string \<Rightarrow> path \<Rightarrow> world \<Rightarrow> (exn + unit) \<times> world" where
  "clone_repository env repo_url build_dir w =
     (case subprocess_run_git_clone env repo_url build_dir w of
        (Inr u, w1) \<Rightarrow> (Inr u, logger INFO (''Cloned repository: '' @ repo_url) w1)
      | (Inl e, w1) \<Rightarrow> (Inl (clone_except e), w1))"

subsection \<open>detect_project_type\<close>

definition detect_project_type :: "path \<Rightarrow> world \<Rightarrow> project_type \<times> world" where
  "detect_project_type build_dir w =
     (case file_exists build_dir ''package.json'' w of
        (has_manifest, w1) \<Rightarrow>
          if has_manifest then (Node, w1)
          else (case file_exists build_dir ''index.html'' w1 of
                  (has_index, w2) \<Rightarrow> if has_index then (Static, w2) else (Default, w2)))"

subsection \<open>build_docker_image\<close>

text \<open>Lines 109-113: the recipe is generated only when the workspace has none.\<close>

definition ensure_dockerfile :: "env \<Rightarrow> path \<Rightarrow> world \<Rightarrow> (exn + unit) \<times> world" where
  "ensure_dockerfile env build_dir w =
     (case file_exists build_dir ''Dockerfile'' w of
        (has_recipe, w1) \<Rightarrow>
          if \<not> has_recipe then
            (case detect_project_type build_dir w1 of
               (project_type, w2) \<Rightarrow>
                 (case write_file env build_dir ''Dockerfile''
                         (DOCKERFILE_TEMPLATES project_type) w2 of
                    (Inl e, w3) \<Rightarrow> (Inl e, w3)
                  | (Inr u, w3) \<Rightarrow>
                      (Inr u, logger INFO
                         (''Generated '' @ project_type_name project_type @ '' Dockerfile'') w3)))
          else (Inr (), w1))"

text \<open>
  \<^verbatim>\<open>client.images.build(path=str(build_dir), tag=..., rm=True, forcerm=True)\<close>: the engine
  receives the content of the directory as the build context.
\<close>

definition client_images_build ::
    "env \<Rightarrow> path \<Rightarrow> string \<Rightarrow> world \<Rightarrow> (exn + (image \<times> log_event list)) \<times> world" where
  "client_images_build env build_dir tag w =
     (images_build env (fs w build_dir) tag, emit (ImagesBuild build_dir (fs w build_dir) tag) w)"

text \<open>
  Lines 123-127: the comprehension over the streamed events, then the slice
  \<^verbatim>\<open>[-20:]\<close>.  The value of a \<^verbatim>\<open>stream\<close> key is a string.
\<close>

definition filter_logs :: "log_event list \<Rightarrow> string list" where
  "filter_logs build_logs =
     (let lines = [py_strip (case map_of line ''stream'' of None \<Rightarrow> [] | Some s \<Rightarrow> s).
                     line \<leftarrow> build_logs,
                     (case map_of line ''stream'' of None \<Rightarrow> False | Some s \<Rightarrow> py_strip s \<noteq> [])]
      in drop (length lines - 20) lines)"

text \<open>\<^verbatim>\<open>image.tags[0]\<close>.\<close>

definition tags0 :: "image \<Rightarrow> exn + string" where
  "tags0 img = (case tags img of [] \<Rightarrow> Inl (IndexError ''list index out of range'')
                | t # ts \<Rightarrow> Inr t)"

text \<open>The \<^verbatim>\<open>try\<close> body of \<^verbatim>\<open>build_docker_image\<close> (lines 108-130).\<close>

definition build_docker_image_try ::
    "env \<Rightarrow> path \<Rightarrow> string \<Rightarrow> world \<Rightarrow> (exn + (image \<times> string list)) \<times> world" where
  "build_docker_image_try env build_dir repo_name w =
     (case ensure_dockerfile env build_dir w of
        (Inl e, w1) \<Rightarrow> (Inl e, w1)
      | (Inr u, w1) \<Rightarrow>
          (case client_images_build env build_dir
                  (''builder/'' @ replace_dots repo_name @ '':latest'') w1 of
             (Inl e, w2) \<Rightarrow> (Inl e, w2)
           | (Inr (img, build_logs), w2) \<Rightarrow>
               (let logs = filter_logs build_logs in
                case tags0 img of
                  Inl e \<Rightarrow> (Inl e, w2)
                | Inr t \<Rightarrow> (Inr (img, logs),
                            logger INFO (''Successfully built image: '' @ t) w2))))"

text \<open>The two \<^verbatim>\<open>except\<close> clauses (lines 132-137); any other exception passes through.\<close>

fun build_docker_image_except :: "exn \<Rightarrow> world \<Rightarrow> exn \<times> world" where
  "build_docker_image_except (BuildError m) w =
     (RuntimeError (''Docker build failed: '' @ m), logger ERROR (''Build failed: '' @ m) w)"
| "build_docker_image_except (APIError m) w =
     (RuntimeError ''Docker service error'', logger ERROR (''Docker API error: '' @ m) w)"
| "build_docker_image_except e w = (e, w)"

definition build_docker_image ::
    "env \<Rightarrow> path \<Rightarrow> string \<Rightarrow> world \<Rightarrow> (exn + (image \<times> string list)) \<times> world" where
  "build_docker_image env build_dir repo_name w =
     (if \<not> client env then (Inl (RuntimeError ''Docker service unavailable''), w)
      else (case build_docker_image_try env build_dir repo_name w of
              (Inl e, w1) \<Rightarrow>
                (case build_docker_image_except e w1 of (e', w2) \<Rightarrow> (Inl e', w2))
            | (Inr r, w1) \<Rightarrow> (Inr r, w1)))"

subsection \<open>The build endpoint\<close>

datatype json =
    JNull
  | JBool bool
  | JInt int
  | JFloat string
  | JStr string
  | JArr "json list"
  | JObj "(string \<times> json) list"

text \<open>
  A request: whether its content type is JSON, and the value \<^verbatim>\<open>request.get_json()\<close>
  parses from its body (\<open>None\<close>: the body does not parse, and the call raises).  A
  number with a fraction or an exponent is a \<open>JFloat\<close>, kept as its literal; the keys of
  an object are distinct.
\<close>

record request =
  is_json :: bool
  json_body :: "json option"

datatype http_body =
    ErrorBody string
  | SuccessBody string "string list" string

text \<open>What a call of the view function ends with: a response, or an exception that leaves it.\<close>

datatype outcome =
    Returned nat http_body
  | Raised exn

fun py_type_name :: "json \<Rightarrow> string" where
  "py_type_name JNull = ''NoneType''"
| "py_type_name (JBool b) = ''bool''"
| "py_type_name (JInt i) = ''int''"
| "py_type_name (JFloat x) = ''float''"
| "py_type_name (JStr s) = ''str''"
| "py_type_name (JArr xs) = ''list''"
| "py_type_name (JObj kvs) = ''dict''"

definition no_attribute :: "json \<Rightarrow> string \<Rightarrow> exn" where
  "no_attribute v attr =
     AttributeError (quoted (py_type_name v) @ '' object has no attribute '' @ quoted attr)"

definition get_json :: "request \<Rightarrow> exn + json" where
  "get_json req =
     (case json_body req of
        None \<Rightarrow> Inl (BadRequest ''400 Bad Request: Failed to decode JSON object'')
      | Some v \<Rightarrow> Inr v)"

text \<open>\<^verbatim>\<open>data.get(key, default)\<close> and \<^verbatim>\<open>value.strip()\<close> on a parsed JSON value.\<close>

fun data_get :: "json \<Rightarrow> string \<Rightarrow> json \<Rightarrow> exn + json" where
  "data_get (JObj kvs) key dflt = Inr (case map_of kvs key of None \<Rightarrow> dflt | Some v \<Rightarrow> v)"
| "data_get v key dflt = Inl (no_attribute v ''get'')"

fun value_strip :: "json \<Rightarrow> exn + string" where
  "value_strip (JStr s) = Inr (py_strip s)"
| "value_strip v = Inl (no_attribute v ''strip'')"

text \<open>Lines 192-196: the special case for GitHub Pages.\<close>

definition github_pages_dockerfile ::
    "env \<Rightarrow> string \<Rightarrow> path \<Rightarrow> world \<Rightarrow> (exn + unit) \<times> world" where
  "github_pages_dockerfile env repo_url build_dir w =
     (if py_in ''github.io'' (py_lower repo_url) then
        (case file_exists build_dir ''Dockerfile'' w of
           (has_recipe, w1) \<Rightarrow>
             if \<not> has_recipe then
               (case write_file env build_dir ''Dockerfile'' (DOCKERFILE_TEMPLATES Static) w1 of
                  (Inl e, w2) \<Rightarrow> (Inl e, w2)
                | (Inr u, w2) \<Rightarrow>
                    (Inr u, logger INFO ''Auto-generated static site Dockerfile'' w2))
             else (Inr (), w1))
      else (Inr (), w))"

text \<open>Lines 188-198: the steps of the inner \<^verbatim>\<open>try\<close>, up to the call of the builder.\<close>

definition build_steps ::
    "env \<Rightarrow> string \<Rightarrow> string \<Rightarrow> path \<Rightarrow> world \<Rightarrow> (exn + (image \<times> string list)) \<times> world" where
  "build_steps env repo_url repo_name build_dir w =
     (case clean_build_dir env build_dir w of
        (Inl e, w1) \<Rightarrow> (Inl e, w1)
      | (Inr u, w1) \<Rightarrow>
          (case clone_repository env repo_url build_dir w1 of
             (Inl e, w2) \<Rightarrow> (Inl e, w2)
           | (Inr u, w2) \<Rightarrow>
               (case github_pages_dockerfile env repo_url build_dir w2 of
                  (Inl e, w3) \<Rightarrow> (Inl e, w3)
                | (Inr u, w3) \<Rightarrow> build_docker_image env build_dir repo_name w3)))"

text \<open>
  Lines 187-209: the inner \<^verbatim>\<open>try\<close> with its \<^verbatim>\<open>except Exception as e\<close>, which answers
  500 with \<^verbatim>\<open>str(e)\<close>.
\<close>

definition build_failed :: "exn \<Rightarrow> world \<Rightarrow> (nat \<times> http_body) \<times> world" where
  "build_failed e w =
     ((500, ErrorBody (str_exn e)), logger ERROR (''Build process failed: '' @ str_exn e) w)"

definition build_try ::
    "env \<Rightarrow> string \<Rightarrow> string \<Rightarrow> path \<Rightarrow> world \<Rightarrow> (nat \<times> http_body) \<times> world" where
  "build_try env repo_url repo_name build_dir w =
     (case build_steps env repo_url repo_name build_dir w of
        (Inl e, w1) \<Rightarrow> build_failed e w1
      | (Inr (img, logs), w1) \<Rightarrow>
          (case tags0 img of
             Inl e \<Rightarrow> build_failed e w1
           | Inr t \<Rightarrow> ((200, SuccessBody t logs (''docker run -p 8080:80 '' @ t)), w1)))"

text \<open>
  Lines 211-213: the \<^verbatim>\<open>finally\<close> clause.  The removal ignores its errors; the
  existence check before it can raise.
\<close>

definition teardown :: "env \<Rightarrow> path \<Rightarrow> world \<Rightarrow> (exn + unit) \<times> world" where
  "teardown env build_dir w =
     (case dir_exists env build_dir w of
        (Inl e, w1) \<Rightarrow> (Inl e, w1)
      | (Inr ex, w1) \<Rightarrow> (Inr (), if ex then rmtree env build_dir w1 else w1))"

text \<open>Lines 172-173: \<^verbatim>\<open>request.get_json()\<close>, then \<^verbatim>\<open>data.get('repo_url', '').strip()\<close>.\<close>

definition read_repo_url :: "request \<Rightarrow> exn + string" where
  "read_repo_url req =
     (case get_json req of
        Inl e \<Rightarrow> Inl e
      | Inr data \<Rightarrow>
          (case data_get data ''repo_url'' (JStr []) of
             Inl e \<Rightarrow> Inl e
           | Inr v \<Rightarrow> value_strip v))"

text \<open>Lines 184-185: the name of the repository and the path of its workspace.\<close>

definition repo_name_of :: "env \<Rightarrow> parsed_url \<Rightarrow> string" where
  "repo_name_of env parsed =
     (let stem = path_stem env (url_path parsed) in if stem = [] then ''unnamed'' else stem)"

definition build_dir_of :: "string \<Rightarrow> path" where
  "build_dir_of repo_name = ''/tmp/builds/'' @ repo_name"

text \<open>
  Lines 179-213: the body of the outer \<^verbatim>\<open>try\<close>.  An exception raised in the
  \<^verbatim>\<open>finally\<close> clause replaces the response the inner \<^verbatim>\<open>try\<close> was about to return.
\<close>

definition build_outer :: "env \<Rightarrow> string \<Rightarrow> world \<Rightarrow> (exn + (nat \<times> http_body)) \<times> world" where
  "build_outer env repo_url w =
     (case urlparse env repo_url of
        Inl e \<Rightarrow> (Inl e, w)
      | Inr parsed \<Rightarrow>
          if scheme parsed = [] \<or> netloc parsed = []
          then (Inr (400, ErrorBody ''Invalid repository URL''), w)
          else
            (let repo_name = repo_name_of env parsed;
                 build_dir = build_dir_of repo_name
             in case build_try env repo_url repo_name build_dir w of
                  (resp, w1) \<Rightarrow>
                    (case teardown env build_dir w1 of
                       (Inl e, w2) \<Rightarrow> (Inl e, w2)
                     | (Inr u, w2) \<Rightarrow> (Inr resp, w2))))"

text \<open>
  The view function (lines 167-217).  The lines that read the body (172-173) stand
  before the outer \<^verbatim>\<open>try\<close>: what they raise leaves the function.
\<close>

definition build_image :: "env \<Rightarrow> request \<Rightarrow> world \<Rightarrow> outcome \<times> world" where
  "build_image env req w =
     (if \<not> is_json req then (Returned 400 (ErrorBody ''Request must be JSON''), w)
      else
        (case read_repo_url req of
           Inl e \<Rightarrow> (Raised e, w)
         | Inr repo_url \<Rightarrow>
             if repo_url = [] then (Returned 400 (ErrorBody ''Missing repo_url''), w)
             else
               (case build_outer env repo_url w of
                  (Inl e, w1) \<Rightarrow>
                    (Returned 500 (ErrorBody ''Internal server error''),
                     logger ERROR ''Unexpected error in build endpoint'' w1)
                | (Inr (code, body), w1) \<Rightarrow> (Returned code body, w1))))"

subsection \<open>Observing a run\<close>

text \<open>
  The external calls a run makes are the events it appends to the trace; the
  classifiers name the calls the claims speak of.
\<close>

definition new_events :: "world \<Rightarrow> world \<Rightarrow> event list" where
  "new_events w w' = drop (length (trace w)) (trace w')"

fun is_clone :: "event \<Rightarrow> bool" where
  "is_clone (GitClone u p) = True"
| "is_clone e = False"

fun is_engine_build :: "event \<Rightarrow> bool" where
  "is_engine_build (ImagesBuild p ctx t) = True"
| "is_engine_build e = False"

fun is_write :: "event \<Rightarrow> bool" where
  "is_write (OpenWrite p) = True"
| "is_write e = False"

fun is_sleep :: "event \<Rightarrow> bool" where
  "is_sleep (Sleep n) = True"
| "is_sleep e = False"

fun is_exists :: "event \<Rightarrow> bool" where
  "is_exists (Exists p) = True"
| "is_exists e = False"

fun is_mkdir :: "event \<Rightarrow> bool" where
  "is_mkdir (Mkdir p) = True"
| "is_mkdir e = False"

subsection \<open>The log tail as the specification words it\<close>

text \<open>
  Section 4.4 of the specification: keep the stream events, trim white space, drop
  the empty lines, retain the final 20 lines.
\<close>

definition stream_texts :: "log_event list \<Rightarrow> string list" where
  "stream_texts build_logs = List.map_filter (\<lambda>line. map_of line ''stream'') build_logs"

definition log_tail_spec :: "log_event list \<Rightarrow> string list" where
  "log_tail_spec build_logs =
     (let kept = filter (\<lambda>l. l \<noteq> []) (map py_strip (stream_texts build_logs))
      in drop (length kept - 20) kept)"

subsection \<open>Sample requests and environments\<close>

definition demo_url :: string where
  "demo_url = ''https://github.com/user/app.git''"

definition demo_files :: dir where
  "demo_files = [(''index.html'', ''<h1>hello</h1>'')]"

definition demo_build_logs :: "log_event list" where
  "demo_build_logs =
     [[(''stream'', ''Step 1/4 : FROM nginx:alpine\<newline>'')],
      [(''aux'', ''sha256:0a1b'')],
      [(''stream'', '' \<newline>'')],
      [(''stream'', ''Successfully built 0a1b\<newline>'')]]"

text \<open>An environment in which every external call succeeds.\<close>

definition demo_env :: env where
  "demo_env =
     \<lparr>client = True,
      urlparse = (\<lambda>u. if u = demo_url
                      then Inr \<lparr>scheme = ''https'', netloc = ''github.com'',
                                url_path = ''/user/app.git''\<rparr>
                      else Inr \<lparr>scheme = [], netloc = [], url_path = u\<rparr>),
      path_stem = (\<lambda>p. if p = ''/user/app.git'' then ''app'' else []),
      path_error = (\<lambda>p. None),
      rmtree_leaves = (\<lambda>t d. None),
      mkdir_error = (\<lambda>t. None),
      git_clone = (\<lambda>u. Inr demo_files),
      open_error = (\<lambda>t. None),
      images_build = (\<lambda>ctx tag. Inr (\<lparr>tags = [tag]\<rparr>, demo_build_logs))\<rparr>"

definition empty_world :: world where
  "empty_world = \<lparr>fs = (\<lambda>p. None), trace = [], logged = []\<rparr>"

definition demo_request :: request where
  "demo_request = \<lparr>is_json = True, json_body = Some (JObj [(''repo_url'', JStr demo_url)])\<rparr>"

text \<open>Bodies whose \<^verbatim>\<open>repo_url\<close> is not a string: \<^verbatim>\<open>{"repo_url": 123}\<close> and \<^verbatim>\<open>{"repo_url": null}\<close>.\<close>

definition number_request :: request where
  "number_request = \<lparr>is_json = True, json_body = Some (JObj [(''repo_url'', JInt 123)])\<rparr>"

definition null_request :: request where
  "null_request = \<lparr>is_json = True, json_body = Some (JObj [(''repo_url'', JNull)])\<rparr>"

text \<open>
  Environments in which one external call fails: no \<^verbatim>\<open>git\<close> program on the host, a URL
  that \<^verbatim>\<open>urlparse\<close> rejects, a repository the remote does not know, no engine handle,
  and a filesystem on which removals fail and leave everything in place.
\<close>

definition no_git_env :: env where
  "no_git_env = demo_env\<lparr>git_clone := (\<lambda>u. Inl (OSError ''[Errno 2] No such file or directory: git''))\<rparr>"

definition bad_url_env :: env where
  "bad_url_env = demo_env\<lparr>urlparse := (\<lambda>u. Inl (ValueError ''Invalid IPv6 URL''))\<rparr>"

definition not_found_env :: env where
  "not_found_env =
     demo_env\<lparr>git_clone := (\<lambda>u. Inl (CalledProcessError ''remote: Repository not found.\<newline>''))\<rparr>"





text \<open>A GitHub Pages repository that holds a manifest, and one that brings its own recipe.\<close>

definition pages_url :: string where
  "pages_url = ''https://github.com/user/my-site.github.io''"

definition pages_request :: request where
  "pages_request = \<lparr>is_json = True, json_body = Some (JObj [(''repo_url'', JStr pages_url)])\<rparr>"

definition pages_env :: env where
  "pages_env =
     demo_env\<lparr>urlparse := (\<lambda>u. if u = pages_url
                      then Inr \<lparr>scheme = ''https'', netloc = ''github.com'',
                                url_path = ''/user/my-site.github.io''\<rparr>
                      else Inr \<lparr>scheme = [], netloc = [], url_path = u\<rparr>),
              path_stem := (\<lambda>p. if p = ''/user/my-site.github.io'' then ''my-site.github'' else []),
              git_clone := (\<lambda>u. Inr [(''package.json'', ''{}'')])\<rparr>"

definition own_recipe_env :: env where
  "own_recipe_env =
     pages_env\<lparr>git_clone := (\<lambda>u. Inr [(''Dockerfile'', ''FROM scratch''), (''index.html'', ''hi'')])\<rparr>"

text \<open>
  A repository whose name has 300 characters: the operating system refuses the path
  of its workspace.
\<close>

definition long_name :: string where
  "long_name = replicate 300 (CHR ''a'')"

definition long_url :: string where
  "long_url = ''https://github.com/u/'' @ long_name"

definition long_request :: request where
  "long_request = \<lparr>is_json = True, json_body = Some (JObj [(''repo_url'', JStr long_url)])\<rparr>"

definition long_name_env :: env where
  "long_name_env =
     demo_env\<lparr>urlparse := (\<lambda>u. if u = long_url
                      then Inr \<lparr>scheme = ''https'', netloc = ''github.com'',
                                url_path = ''/u/'' @ long_name\<rparr>
                      else Inr \<lparr>scheme = [], netloc = [], url_path = u\<rparr>),
              path_stem := (\<lambda>p. if p = ''/u/'' @ long_name then long_name else []),
              path_error := (\<lambda>p. if p = ''/tmp/builds/'' @ long_name
                                  then Some (OSError ''[Errno 36] File name too long'')
                                  else None)\<rparr>"

text \<open>
  A filesystem on which the first removal fails and later ones succeed, and a body
  whose \<^verbatim>\<open>repo_url\<close> is the number \<^verbatim>\<open>1.5\<close>.
\<close>

definition retry_env :: env where
  "retry_env = demo_env\<lparr>rmtree_leaves := (\<lambda>t d. if t < 2 then Some d else None)\<rparr>"

definition float_request :: request where
  "float_request = \<lparr>is_json = True, json_body = Some (JObj [(''repo_url'', JFloat ''1.5'')])\<rparr>"

subsection \<open>The world operations\<close>

lemma fs_emit [simp]: "fs (emit e w) = fs w"
  by (simp add: emit_def)

lemma trace_emit [simp]: "trace (emit e w) = trace w @ [e]"
  by (simp add: emit_def)

lemma fs_logger [simp]: "fs (logger l m w) = fs w"
  by (simp add: logger_def)

lemma trace_logger [simp]: "trace (logger l m w) = trace w"
  by (simp add: logger_def)

lemma new_events_same [simp]: "new_events w w = []"
  by (simp add: new_events_def)

lemma new_events_append: "trace w' = trace w @ evs \<Longrightarrow> new_events w w' = evs"
  by (simp add: new_events_def)

lemma trace_rmtree [simp]: "trace (rmtree env p w) = trace w @ [Rmtree p]"
  by (simp add: rmtree_def split: option.splits)

lemma trace_mkdir [simp]: "trace (snd (mkdir env p w)) = trace w @ [Mkdir p]"
  by (simp add: mkdir_def Let_def split: option.splits)

lemma snd_dir_exists [simp]: "snd (dir_exists env p w) = emit (Exists p) w"
  by (simp add: dir_exists_def)

lemma dir_exists_accepted:
  "path_error env p = None \<Longrightarrow> fst (dir_exists env p w) = Inr (fs w p \<noteq> None)"
  by (simp add: dir_exists_def)

lemma dir_exists_present: "fs w p = Some d \<Longrightarrow> fst (dir_exists env p w) = Inr True"
  by (simp add: dir_exists_def)

lemma dir_exists_Inr: "fst (dir_exists env p w) = Inr ex \<Longrightarrow> ex = (fs w p \<noteq> None)"
  by (auto simp: dir_exists_def split: if_splits option.splits)

lemma dir_exists_Inl: "fst (dir_exists env p w) = Inl e \<Longrightarrow> fs w p = None \<and> path_error env p = Some e"
  by (auto simp: dir_exists_def split: if_splits option.splits)

lemma mkdir_Inr: "mkdir env p w = (Inr u, w') \<Longrightarrow> path_error env p = None \<and> fs w' p \<noteq> None"
  by (auto simp: mkdir_def Let_def split: option.splits if_splits)

subsection \<open>Teardown\<close>

lemma trace_teardown:
  "trace (snd (teardown env p w))
     = trace w @ (if fs w p = None then [Exists p] else [Exists p, Rmtree p])"
  by (auto simp: teardown_def dir_exists_def split: option.splits)


lemma teardown_accepted: "path_error env p = None \<Longrightarrow> fst (teardown env p w) = Inr ()"
  by (simp add: teardown_def dir_exists_def)

lemma teardown_Inl:
  "fst (teardown env p w) = Inl e \<Longrightarrow> fs w p = None \<and> path_error env p = Some e"
  by (auto simp: teardown_def dir_exists_def split: if_splits option.splits)

subsection \<open>clean_build_dir\<close>

lemma clean_attempt_events:
  assumes "clean_attempt env p w = (r, w')"
  shows "\<exists>evs. trace w' = trace w @ evs \<and> filter is_exists evs = [Exists p]
           \<and> length (filter is_mkdir evs) \<le> 1 \<and> filter is_sleep evs = []
           \<and> filter is_clone evs = [] \<and> filter is_engine_build evs = []
           \<and> filter is_write evs = []"
proof (cases "fst (dir_exists env p w)")
  case (Inl e)
  with assms have "trace w' = trace w @ [Exists p]"
    by (auto simp: clean_attempt_def dir_exists_def
             split: prod.splits sum.splits if_splits option.splits)
  then show ?thesis by (intro exI [of _ "[Exists p]"]) simp
next
  case (Inr ex)
  let ?w1 = "if ex then rmtree env p (emit (Exists p) w) else emit (Exists p) w"
  from assms Inr have "w' = snd (mkdir env p ?w1)"
    by (auto simp: clean_attempt_def dir_exists_def
             split: prod.splits sum.splits if_splits option.splits)
  then have "trace w' = trace w @ (Exists p # (if ex then [Rmtree p] else []) @ [Mkdir p])"
    by simp
  then show ?thesis
    by (intro exI [of _ "Exists p # (if ex then [Rmtree p] else []) @ [Mkdir p]"]) simp
qed

lemma clean_attempt_Inr:
  "clean_attempt env p w = (Inr u, w') \<Longrightarrow> fs w' p \<noteq> None \<and> path_error env p = None"
  by (auto simp: clean_attempt_def split: prod.splits sum.splits dest: mkdir_Inr)




lemma fs_clean_failed [simp]: "fs (clean_failed a e w) = fs w"
  by (simp add: clean_failed_def)

lemma trace_clean_failed [simp]: "trace (clean_failed a e w) = trace w @ [Sleep 1]"
  by (simp add: clean_failed_def)


lemma clean_loop_Inr:
  "clean_loop env p attempts w = (Inr u, w') \<Longrightarrow> fs w' p \<noteq> None \<and> path_error env p = None"
proof (induction attempts arbitrary: w)
  case Nil
  then show ?case by simp
next
  case (Cons a attempts)
  obtain r w1 where att: "clean_attempt env p w = (r, w1)"
    by (cases "clean_attempt env p w")
  show ?case
  proof (cases r)
    case (Inl e)
    with Cons.prems att have "clean_loop env p attempts (clean_failed a e w1) = (Inr u, w')"
      by simp
    then show ?thesis by (rule Cons.IH)
  next
    case (Inr v)
    with Cons.prems att have "clean_attempt env p w = (Inr v, w')"
      by simp
    then show ?thesis by (rule clean_attempt_Inr)
  qed
qed


lemma clean_loop_events:
  "clean_loop env p attempts w = (r, w') \<Longrightarrow>
   \<exists>evs. trace w' = trace w @ evs \<and> filter is_clone evs = [] \<and>
         filter is_engine_build evs = [] \<and> filter is_write evs = [] \<and>
         (case r of
            Inl e \<Rightarrow> filter is_sleep evs = replicate (length attempts) (Sleep 1) \<and>
                     length (filter is_exists evs) = length attempts \<and>
                     length (filter is_mkdir evs) \<le> length attempts
          | Inr u \<Rightarrow> length (filter is_sleep evs) < length attempts)"
proof (induction attempts arbitrary: w)
  case Nil
  then show ?case by auto
next
  case (Cons a attempts)
  obtain r1 w1 where att: "clean_attempt env p w = (r1, w1)"
    by (cases "clean_attempt env p w")
  from clean_attempt_events [OF att] obtain evs1 where
    tr1: "trace w1 = trace w @ evs1"
    and cl1: "filter is_clone evs1 = []" "filter is_engine_build evs1 = []"
      "filter is_write evs1 = []" "filter is_sleep evs1 = []"
      "length (filter is_mkdir evs1) \<le> 1" "filter is_exists evs1 = [Exists p]"
    by blast
  show ?case
  proof (cases r1)
    case (Inl e)
    from Cons.prems att Inl have "clean_loop env p attempts (clean_failed a e w1) = (r, w')"
      by simp
    from Cons.IH [OF this] obtain evs where
      evs: "trace w' = trace (clean_failed a e w1) @ evs" "filter is_clone evs = []"
           "filter is_engine_build evs = []" "filter is_write evs = []"
           "case r of
              Inl e \<Rightarrow> filter is_sleep evs = replicate (length attempts) (Sleep 1) \<and>
                       length (filter is_exists evs) = length attempts \<and>
                       length (filter is_mkdir evs) \<le> length attempts
            | Inr u \<Rightarrow> length (filter is_sleep evs) < length attempts"
      by blast
    have "trace w' = trace w @ (evs1 @ [Sleep 1] @ evs)"
      using evs(1) tr1 by simp
    moreover have "filter is_clone (evs1 @ [Sleep 1] @ evs) = []"
      "filter is_engine_build (evs1 @ [Sleep 1] @ evs) = []"
      "filter is_write (evs1 @ [Sleep 1] @ evs) = []"
      using evs cl1 by simp_all
    moreover have "case r of
        Inl e \<Rightarrow> filter is_sleep (evs1 @ [Sleep 1] @ evs) = replicate (length (a # attempts)) (Sleep 1) \<and>
                 length (filter is_exists (evs1 @ [Sleep 1] @ evs)) = length (a # attempts) \<and>
                 length (filter is_mkdir (evs1 @ [Sleep 1] @ evs)) \<le> length (a # attempts)
      | Inr u \<Rightarrow> length (filter is_sleep (evs1 @ [Sleep 1] @ evs)) < length (a # attempts)"
      using evs(5) cl1 by (simp split: sum.splits)
    ultimately show ?thesis by blast
  next
    case (Inr v)
    with Cons.prems att have "r = Inr v" "w' = w1"
      by auto
    with tr1 cl1 show ?thesis
      by (intro exI [of _ evs1]) simp
  qed
qed

subsection \<open>Runs only append to the trace\<close>

lemma new_events_trans:
  assumes "prefix (trace w) (trace w1)" and "prefix (trace w1) (trace w2)"
  shows "new_events w w2 = new_events w w1 @ new_events w1 w2"
proof -
  from assms obtain evs1 evs2 where "trace w1 = trace w @ evs1" "trace w2 = trace w1 @ evs2"
    by (auto simp: prefix_def)
  then show ?thesis by (simp add: new_events_def)
qed

lemma prefix_new_events: "prefix (trace w) (trace w') \<Longrightarrow> trace w' = trace w @ new_events w w'"
  by (auto simp: prefix_def new_events_def)

lemma clean_build_dir_prefix:
  "clean_build_dir env p w = (r, w') \<Longrightarrow> prefix (trace w) (trace w')"
  unfolding clean_build_dir_def by (drule clean_loop_events) (auto simp: prefix_def)


lemma file_exists_simps [simp]:
  "fs (snd (file_exists p name w)) = fs w"
  "trace (snd (file_exists p name w)) = trace w @ [Exists (p @ ''/'' @ name)]"
  by (simp_all add: file_exists_def)

lemma clone_repository_Inr:
  assumes "clone_repository env url p w = (Inr u, w')"
  shows "\<exists>files. git_clone env url = Inr files \<and> fs w' = (fs w)(p \<mapsto> files)
           \<and> trace w' = trace w @ [GitClone url p]"
  using assms
  by (auto simp: clone_repository_def subprocess_run_git_clone_def split: sum.splits)

lemma clone_repository_Inl:
  assumes "clone_repository env url p w = (Inl e, w')"
  shows "\<exists>e0. git_clone env url = Inl e0 \<and> e = clone_except e0 \<and> fs w' = fs w
           \<and> trace w' = trace w @ [GitClone url p]"
  using assms
  by (auto simp: clone_repository_def subprocess_run_git_clone_def split: sum.splits)

lemma clone_repository_trace:
  "clone_repository env url p w = (r, w') \<Longrightarrow> trace w' = trace w @ [GitClone url p]"
  by (cases r) (auto dest: clone_repository_Inr clone_repository_Inl)

lemma write_file_trace:
  "write_file env p name content w = (r, w') \<Longrightarrow> trace w' = trace w @ [OpenWrite (p @ ''/'' @ name)]"
  by (auto simp: write_file_def split: option.splits)

lemma github_pages_dockerfile_trace:
  assumes "github_pages_dockerfile env url p w = (r, w')"
  shows "\<exists>evs. trace w' = trace w @ evs \<and> filter is_clone evs = []
           \<and> filter is_engine_build evs = []
           \<and> (fst (file_exists p ''Dockerfile'' w) \<longrightarrow> filter is_write evs = [] \<and> fs w' = fs w \<and> r = Inr ())"
proof (cases "py_in ''github.io'' (py_lower url)")
  case False
  with assms show ?thesis by (auto simp: github_pages_dockerfile_def)
next
  case marker: True
  obtain has w1 where fe: "file_exists p ''Dockerfile'' w = (has, w1)"
    by (cases "file_exists p ''Dockerfile'' w")
  then have w1: "trace w1 = trace w @ [Exists (p @ ''/Dockerfile'')]" "fs w1 = fs w"
    using file_exists_simps [of p "''Dockerfile''" w] by simp_all
  show ?thesis
  proof (cases has)
    case True
    with assms marker fe w1 show ?thesis
      by (auto simp: github_pages_dockerfile_def)
  next
    case False
    obtain r2 w2 where wf: "write_file env p ''Dockerfile'' (DOCKERFILE_TEMPLATES Static) w1 = (r2, w2)"
      by (cases "write_file env p ''Dockerfile'' (DOCKERFILE_TEMPLATES Static) w1")
    from write_file_trace [OF wf] w1
    have "trace w2 = trace w @ [Exists (p @ ''/Dockerfile''), OpenWrite (p @ ''/Dockerfile'')]"
      by simp
    with assms marker fe wf False show ?thesis
      by (cases r2) (auto simp: github_pages_dockerfile_def)
  qed
qed

lemma ensure_dockerfile_prefix:
  "ensure_dockerfile env p w = (r, w') \<Longrightarrow> prefix (trace w) (trace w')"
  by (auto simp: ensure_dockerfile_def detect_project_type_def file_exists_def write_file_def
                 prefix_def
           split: prod.splits if_splits option.splits sum.splits)

lemma teardown_prefix: "prefix (trace w) (trace (snd (teardown env p w)))"
  by (simp add: trace_teardown prefix_def)

lemma comprehension_spec:
  "[py_strip (case map_of line ''stream'' of None \<Rightarrow> [] | Some s \<Rightarrow> s).
      line \<leftarrow> build_logs,
      (case map_of line ''stream'' of None \<Rightarrow> False | Some s \<Rightarrow> py_strip s \<noteq> [])]
   = filter (\<lambda>l. l \<noteq> []) (map py_strip (stream_texts build_logs))"
  by (induction build_logs) (auto simp: stream_texts_def List.map_filter_simps split: option.splits)

lemma filter_logs_spec: "filter_logs build_logs = log_tail_spec build_logs"
  unfolding filter_logs_def log_tail_spec_def comprehension_spec ..

lemma log_tail_spec_length: "length (log_tail_spec build_logs) \<le> 20"
  by (simp add: log_tail_spec_def Let_def)

lemma log_tail_spec_nonempty: "[] \<notin> set (log_tail_spec build_logs)"
proof
  assume "[] \<in> set (log_tail_spec build_logs)"
  then have "[] \<in> set (filter (\<lambda>l. l \<noteq> []) (map py_strip (stream_texts build_logs)))"
    unfolding log_tail_spec_def Let_def by (rule in_set_dropD)
  then show False by simp
qed

lemma build_docker_image_Inr:
  assumes "build_docker_image env p repo_name w = (Inr (img, logs), w')"
  shows "\<exists>ctx build_logs.
           ImagesBuild p ctx (''builder/'' @ replace_dots repo_name @ '':latest'')
             \<in> set (new_events w w')
           \<and> prefix (trace w) (trace w')
           \<and> images_build env ctx (''builder/'' @ replace_dots repo_name @ '':latest'')
               = Inr (img, build_logs)
           \<and> logs = filter_logs build_logs"
proof -
  let ?tag = "''builder/'' @ replace_dots repo_name @ '':latest''"
  from assms have cl: "client env"
    by (auto simp: build_docker_image_def split: if_splits)
  with assms have tr: "build_docker_image_try env p repo_name w = (Inr (img, logs), w')"
    by (auto simp: build_docker_image_def split: prod.splits sum.splits)
  obtain r1 w1 where en: "ensure_dockerfile env p w = (r1, w1)"
    by (cases "ensure_dockerfile env p w")
  from ensure_dockerfile_prefix [OF en] obtain evs where evs: "trace w1 = trace w @ evs"
    by (auto simp: prefix_def)
  from tr en obtain build_logs t where
    "images_build env (fs w1 p) ?tag = Inr (img, build_logs)"
    "logs = filter_logs build_logs"
    "w' = logger INFO (''Successfully built image: '' @ t) (emit (ImagesBuild p (fs w1 p) ?tag) w1)"
    by (auto simp: build_docker_image_try_def client_images_build_def Let_def
             split: prod.splits sum.splits)
  moreover from this evs have "trace w' = trace w @ (evs @ [ImagesBuild p (fs w1 p) ?tag])"
    by simp
  ultimately show ?thesis
    by (intro exI [of _ "fs w1 p"] exI [of _ build_logs]) (simp add: new_events_def prefix_def)
qed

lemma build_steps_Inr:
  assumes "build_steps env url repo_name p w = (Inr (img, logs), w')"
  shows "\<exists>ctx build_logs.
           ImagesBuild p ctx (''builder/'' @ replace_dots repo_name @ '':latest'')
             \<in> set (new_events w w')
           \<and> prefix (trace w) (trace w')
           \<and> images_build env ctx (''builder/'' @ replace_dots repo_name @ '':latest'')
               = Inr (img, build_logs)
           \<and> logs = filter_logs build_logs"
proof -
  from assms obtain u1 w1 u2 w2 u3 w3 where
    st: "clean_build_dir env p w = (Inr u1, w1)"
        "clone_repository env url p w1 = (Inr u2, w2)"
        "github_pages_dockerfile env url p w2 = (Inr u3, w3)"
        "build_docker_image env p repo_name w3 = (Inr (img, logs), w')"
    by (auto simp: build_steps_def split: prod.splits sum.splits)
  have p1: "prefix (trace w) (trace w1)"
    using st(1) by (rule clean_build_dir_prefix)
  have p2: "prefix (trace w1) (trace w2)"
    using clone_repository_trace [OF st(2)] by (simp add: prefix_def)
  have p3: "prefix (trace w2) (trace w3)"
    using github_pages_dockerfile_trace [OF st(3)] by (auto simp: prefix_def)
  have p03: "prefix (trace w) (trace w3)"
    using p1 p2 p3 by (meson prefix_order.trans)
  from build_docker_image_Inr [OF st(4)] obtain ctx build_logs where
    b: "ImagesBuild p ctx (''builder/'' @ replace_dots repo_name @ '':latest'')
             \<in> set (new_events w3 w')"
       "prefix (trace w3) (trace w')"
       "images_build env ctx (''builder/'' @ replace_dots repo_name @ '':latest'')
               = Inr (img, build_logs)"
       "logs = filter_logs build_logs"
    by blast
  have "new_events w w' = new_events w w3 @ new_events w3 w'"
    using p03 b(2) by (rule new_events_trans)
  with b p03 show ?thesis
    by (intro exI [of _ ctx] exI [of _ build_logs]) (auto intro: prefix_order.trans)
qed

lemma build_try_world:
  "trace (snd (build_try env url repo_name p w)) = trace (snd (build_steps env url repo_name p w))"
  "fs (snd (build_try env url repo_name p w)) = fs (snd (build_steps env url repo_name p w))"
  by (auto simp: build_try_def build_failed_def split: prod.splits sum.splits)

lemma build_image_200:
  assumes "fst (build_image env req w) = Returned 200 (SuccessBody t logs cmd)"
  shows "\<exists>url repo_name p img w1.
           build_steps env url repo_name p w = (Inr (img, logs), w1)
           \<and> snd (build_image env req w) = snd (teardown env p w1)"
  using assms
  apply (auto simp: build_image_def build_outer_def build_try_def build_failed_def Let_def
           split: if_splits sum.splits prod.splits)
  apply (metis snd_conv)
  done

text \<open>
  Claim C8.  When the build endpoint answers 200, the log list of the response has at
  most 20 entries, none of them empty, and it is the log tail of the specification
  (stream events kept, white space trimmed, empty lines dropped, the final 20 lines in
  order) of the output the engine streamed for the build this request invoked.
\<close>

theorem successful_build_log_tail:
  assumes "fst (build_image env req w) = Returned 200 (SuccessBody t logs cmd)"
  shows "length logs \<le> 20 \<and> [] \<notin> set logs \<and>
         (\<exists>p ctx tag img build_logs.
            ImagesBuild p ctx tag \<in> set (new_events w (snd (build_image env req w))) \<and>
            images_build env ctx tag = Inr (img, build_logs) \<and>
            logs = log_tail_spec build_logs)"
proof -
  from build_image_200 [OF assms] obtain url repo_name p img w1 where
    st: "build_steps env url repo_name p w = (Inr (img, logs), w1)"
    and fin: "snd (build_image env req w) = snd (teardown env p w1)"
    by blast
  from build_steps_Inr [OF st] obtain ctx build_logs where
    b: "ImagesBuild p ctx (''builder/'' @ replace_dots repo_name @ '':latest'')
             \<in> set (new_events w w1)"
       "prefix (trace w) (trace w1)"
       "images_build env ctx (''builder/'' @ replace_dots repo_name @ '':latest'')
               = Inr (img, build_logs)"
       "logs = filter_logs build_logs"
    by blast
  have "new_events w (snd (teardown env p w1))
          = new_events w w1 @ new_events w1 (snd (teardown env p w1))"
    using b(2) teardown_prefix by (rule new_events_trans)
  with b(1) fin
  have "ImagesBuild p ctx (''builder/'' @ replace_dots repo_name @ '':latest'')
          \<in> set (new_events w (snd (build_image env req w)))"
    by simp
  moreover have "logs = log_tail_spec build_logs"
    using b(4) by (simp add: filter_logs_spec)
  ultimately show ?thesis
    using b(3) log_tail_spec_length [of build_logs] log_tail_spec_nonempty [of build_logs]
    by blast
qed

theorem successful_build_log_tail_witness:
  "fst (build_image demo_env demo_request empty_world) =
     Returned 200 (SuccessBody ''builder/app:latest''
        [''Step 1/4 : FROM nginx:alpine'', ''Successfully built 0a1b'']
        ''docker run -p 8080:80 builder/app:latest'') \<and>
   length [''Step 1/4 : FROM nginx:alpine'', ''Successfully built 0a1b''] \<le> (20::nat) \<and>
   (\<exists>p ctx tag img build_logs.
      ImagesBuild p ctx tag \<in> set (new_events empty_world (snd (build_image demo_env demo_request empty_world))) \<and>
      images_build demo_env ctx tag = Inr (img, build_logs) \<and>
      [''Step 1/4 : FROM nginx:alpine'', ''Successfully built 0a1b''] = log_tail_spec build_logs)"
proof -
  have run: "fst (build_image demo_env demo_request empty_world) =
     Returned 200 (SuccessBody ''builder/app:latest''
        [''Step 1/4 : FROM nginx:alpine'', ''Successfully built 0a1b'']
        ''docker run -p 8080:80 builder/app:latest'')"
    by code_simp
  from successful_build_log_tail [OF run] run show ?thesis
    by simp
qed

subsection \<open>Requests that pass the checks of the handler\<close>

lemma build_image_valid:
  assumes "is_json req" and "read_repo_url req = Inr url" and "url \<noteq> []"
    and "urlparse env url = Inr parsed" and "scheme parsed \<noteq> []" and "netloc parsed \<noteq> []"
  shows "build_image env req w =
           (case build_try env url (repo_name_of env parsed)
                   (build_dir_of (repo_name_of env parsed)) w of
              ((code, body), w1) \<Rightarrow>
                (case teardown env (build_dir_of (repo_name_of env parsed)) w1 of
                   (Inl e, w2) \<Rightarrow>
                     (Returned 500 (ErrorBody ''Internal server error''),
                      logger ERROR ''Unexpected error in build endpoint'' w2)
                 | (Inr u, w2) \<Rightarrow> (Returned code body, w2)))"
  using assms
  by (simp add: build_image_def build_outer_def Let_def split: prod.splits sum.splits)

lemma build_image_valid_fst:
  assumes "is_json req" and "read_repo_url req = Inr url" and "url \<noteq> []"
    and "urlparse env url = Inr parsed" and "scheme parsed \<noteq> []" and "netloc parsed \<noteq> []"
  shows "fst (build_image env req w) =
           (case fst (teardown env (build_dir_of (repo_name_of env parsed))
                        (snd (build_try env url (repo_name_of env parsed)
                                (build_dir_of (repo_name_of env parsed)) w))) of
              Inl e \<Rightarrow> Returned 500 (ErrorBody ''Internal server error'')
            | Inr u \<Rightarrow>
                Returned (fst (fst (build_try env url (repo_name_of env parsed)
                                     (build_dir_of (repo_name_of env parsed)) w)))
                         (snd (fst (build_try env url (repo_name_of env parsed)
                                     (build_dir_of (repo_name_of env parsed)) w))))"
  using assms
  by (simp add: build_image_valid split: prod.splits sum.splits)

lemma build_image_valid_world:
  assumes "is_json req" and "read_repo_url req = Inr url" and "url \<noteq> []"
    and "urlparse env url = Inr parsed" and "scheme parsed \<noteq> []" and "netloc parsed \<noteq> []"
  shows "trace (snd (build_image env req w))
           = trace (snd (teardown env (build_dir_of (repo_name_of env parsed))
                           (snd (build_try env url (repo_name_of env parsed)
                                   (build_dir_of (repo_name_of env parsed)) w))))"
    and "fs (snd (build_image env req w))
           = fs (snd (teardown env (build_dir_of (repo_name_of env parsed))
                        (snd (build_try env url (repo_name_of env parsed)
                                (build_dir_of (repo_name_of env parsed)) w))))"
  using assms
  by (simp_all add: build_image_valid split: prod.splits sum.splits)

lemma build_try_Inl:
  "build_steps env url repo_name p w = (Inl e, w1) \<Longrightarrow>
   build_try env url repo_name p w = build_failed e w1"
  by (simp add: build_try_def)

lemma read_repo_url_object:
  "json_body req = Some (JObj kvs) \<Longrightarrow> map_of kvs ''repo_url'' = Some v \<Longrightarrow>
   read_repo_url req = value_strip v"
  by (simp add: read_repo_url_def get_json_def)

lemma value_strip_non_string: "\<forall>s. v \<noteq> JStr s \<Longrightarrow> value_strip v = Inl (no_attribute v ''strip'')"
  by (cases v) simp_all

text \<open>
  Claim C9, the failing input.  A request with the body \<^verbatim>\<open>{"repo_url": 123}\<close> is not
  answered with 400: \<^verbatim>\<open>strip\<close> raises \<^verbatim>\<open>AttributeError\<close> on line 173, outside both
  \<^verbatim>\<open>try\<close> statements, and the exception leaves the view function.
\<close>

theorem number_repo_url_raises:
  "build_image env number_request w = (Raised (no_attribute (JInt 123) ''strip''), w)"
  by (simp add: build_image_def read_repo_url_def get_json_def number_request_def)

text \<open>The bodies the handler does reject with 400, without any external call.\<close>

lemma rejected_requests:
  assumes "\<not> is_json req \<or> read_repo_url req = Inr []
           \<or> (\<exists>url parsed. read_repo_url req = Inr url \<and> urlparse env url = Inr parsed
                 \<and> (scheme parsed = [] \<or> netloc parsed = []))"
  shows "\<exists>body. build_image env req w = (Returned 400 body, w)"
  using assms
  by (auto simp: build_image_def build_outer_def)

text \<open>
  Whenever the body is an object whose \<^verbatim>\<open>repo_url\<close> is present and is not a string
  (a number, a boolean, \<^verbatim>\<open>null\<close>, a list, an object), \<^verbatim>\<open>strip\<close> raises before the outer
  \<^verbatim>\<open>try\<close> is entered and no external call is made.
\<close>

lemma non_string_repo_url_escapes:
  assumes "is_json req" and "json_body req = Some (JObj kvs)"
    and "map_of kvs ''repo_url'' = Some v" and "\<forall>s. v \<noteq> JStr s"
  shows "build_image env req w = (Raised (no_attribute v ''strip''), w)"
  using assms
  by (simp add: build_image_def read_repo_url_object value_strip_non_string)

lemma float_repo_url_raises:
  "build_image env float_request w = (Raised (no_attribute (JFloat ''1.5'') ''strip''), w)"
  by (simp add: build_image_def read_repo_url_def get_json_def float_request_def)

text \<open>
  Claim C10, the failing input.  For the body \<^verbatim>\<open>{"repo_url": null}\<close> the handler does
  not return the generic 500 body, nor any response: \<^verbatim>\<open>strip\<close> raises \<^verbatim>\<open>AttributeError\<close>
  on line 173, which no \<^verbatim>\<open>try\<close> of the view function covers, and the exception leaves
  it; no external call (prepare, fetch, build) is made.
\<close>

theorem null_repo_url_raises:
  "build_image env null_request w = (Raised (no_attribute JNull ''strip''), w)"
  by (simp add: build_image_def read_repo_url_def get_json_def null_request_def)

subsection \<open>Failures and the text the caller receives\<close>

lemma fst_build_failed: "fst (build_failed e w) = (500, ErrorBody (str_exn e))"
  by (simp add: build_failed_def)

lemma teardown_fst_cong: "fs w = fs w' \<Longrightarrow> fst (teardown env p w) = fst (teardown env p w')"
  by (simp add: teardown_def dir_exists_def split: option.splits)

lemma build_image_steps_failed:
  assumes "is_json req" and "read_repo_url req = Inr url" and "url \<noteq> []"
    and "urlparse env url = Inr parsed" and "scheme parsed \<noteq> []" and "netloc parsed \<noteq> []"
    and "build_steps env url (repo_name_of env parsed) (build_dir_of (repo_name_of env parsed)) w
           = (Inl e, w1)"
  shows "fst (build_image env req w)
           = (case fst (teardown env (build_dir_of (repo_name_of env parsed)) w1) of
                Inr u \<Rightarrow> Returned 500 (ErrorBody (str_exn e))
              | Inl e' \<Rightarrow> Returned 500 (ErrorBody ''Internal server error''))"
    and "trace (snd (build_image env req w))
           = trace (snd (teardown env (build_dir_of (repo_name_of env parsed)) w1))"
proof -
  let ?p = "build_dir_of (repo_name_of env parsed)"
  let ?w2 = "logger ERROR (''Build process failed: '' @ str_exn e) w1"
  have bt: "build_try env url (repo_name_of env parsed) ?p w = ((500, ErrorBody (str_exn e)), ?w2)"
    using assms(7) by (simp add: build_try_Inl build_failed_def)
  have same: "fst (teardown env ?p ?w2) = fst (teardown env ?p w1)"
    by (rule teardown_fst_cong) simp
  show "fst (build_image env req w)
           = (case fst (teardown env ?p w1) of
                Inr u \<Rightarrow> Returned 500 (ErrorBody (str_exn e))
              | Inl e' \<Rightarrow> Returned 500 (ErrorBody ''Internal server error''))"
    using build_image_valid_fst [OF assms(1-6), of w] unfolding bt snd_conv fst_conv same
    by (simp split: sum.splits)
  have "trace (snd (teardown env ?p ?w2)) = trace (snd (teardown env ?p w1))"
    by (simp add: trace_teardown)
  then show "trace (snd (build_image env req w)) = trace (snd (teardown env ?p w1))"
    using build_image_valid_world(1) [OF assms(1-6), of w] unfolding bt snd_conv
    by simp
qed

lemma build_image_steps_failed_accepted:
  assumes "is_json req" and "read_repo_url req = Inr url" and "url \<noteq> []"
    and "urlparse env url = Inr parsed" and "scheme parsed \<noteq> []" and "netloc parsed \<noteq> []"
    and "build_steps env url (repo_name_of env parsed) (build_dir_of (repo_name_of env parsed)) w
           = (Inl e, w1)"
    and "path_error env (build_dir_of (repo_name_of env parsed)) = None"
  shows "fst (build_image env req w) = Returned 500 (ErrorBody (str_exn e))"
  using build_image_steps_failed(1) [OF assms(1-7)] teardown_accepted [OF assms(8)]
  by simp

lemma clean_build_dir_accepted:
  "clean_build_dir env p w = (Inr u, w1) \<Longrightarrow> path_error env p = None"
  unfolding clean_build_dir_def by (drule clean_loop_Inr) simp

lemma build_image_urlparse_failed:
  assumes "is_json req" and "read_repo_url req = Inr url" and "url \<noteq> []"
    and "urlparse env url = Inl e"
  shows "build_image env req w =
           (Returned 500 (ErrorBody ''Internal server error''),
            logger ERROR ''Unexpected error in build endpoint'' w)"
  using assms by (simp add: build_image_def build_outer_def)

lemma demo_request_valid:
  "is_json demo_request" "read_repo_url demo_request = Inr demo_url" "demo_url \<noteq> []"
  by (simp_all add: demo_request_def read_repo_url_def get_json_def demo_url_def
                    py_strip_def is_space_def)

text \<open>
  Claim C2 as stated fails: when the host has no \<^verbatim>\<open>git\<close> program, \<^verbatim>\<open>subprocess.run\<close>
  raises an \<^verbatim>\<open>OSError\<close> that no classification covers, and the caller receives its text
  instead of the generic message.
\<close>

theorem unclassified_failure_counterexample:
  "fst (build_image no_git_env demo_request empty_world)
     = Returned 500 (ErrorBody ''[Errno 2] No such file or directory: git'')"
  by code_simp

text \<open>
  Claim C2, amended.  For a request with a non-empty \<^verbatim>\<open>repo_url\<close> string: a failure
  raised outside the inner \<^verbatim>\<open>try\<close> is answered with 500 and the generic message
  \<^verbatim>\<open>Internal server error\<close>, be it raised by \<^verbatim>\<open>urlparse\<close> or by the existence check of
  the \<^verbatim>\<open>finally\<close> clause; an exception raised by the steps inside the inner \<^verbatim>\<open>try\<close>
  (prepare, clone, recipe, image build), classified or not, is answered with 500 and
  its own text \<^verbatim>\<open>str(e)\<close> when the \<^verbatim>\<open>finally\<close> clause completes.
\<close>

theorem failure_responses:
  assumes "is_json req" and "read_repo_url req = Inr url" and "url \<noteq> []"
  shows "(\<forall>e. urlparse env url = Inl e \<longrightarrow>
            fst (build_image env req w) = Returned 500 (ErrorBody ''Internal server error''))
         \<and> (\<forall>parsed e w1.
              urlparse env url = Inr parsed \<and> scheme parsed \<noteq> [] \<and> netloc parsed \<noteq> [] \<and>
              build_steps env url (repo_name_of env parsed)
                (build_dir_of (repo_name_of env parsed)) w = (Inl e, w1) \<longrightarrow>
              fst (build_image env req w)
                = (case fst (teardown env (build_dir_of (repo_name_of env parsed)) w1) of
                     Inr u \<Rightarrow> Returned 500 (ErrorBody (str_exn e))
                   | Inl e' \<Rightarrow> Returned 500 (ErrorBody ''Internal server error'')))"
  using assms
  by (auto simp: build_image_urlparse_failed build_image_steps_failed(1))

lemma long_request_valid:
  "is_json long_request" "read_repo_url long_request = Inr long_url" "long_url \<noteq> []"
proof -
  show "is_json long_request"
    by (simp add: long_request_def)
  have "py_strip long_url = long_url"
    by code_simp
  then show "read_repo_url long_request = Inr long_url"
    by (simp add: long_request_def read_repo_url_def get_json_def)
  show "long_url \<noteq> []"
    by (simp add: long_url_def)
qed

theorem failure_responses_witness:
  "is_json demo_request \<and> read_repo_url demo_request = Inr demo_url \<and> demo_url \<noteq> []
   \<and> urlparse bad_url_env demo_url = Inl (ValueError ''Invalid IPv6 URL'')
   \<and> fst (build_image bad_url_env demo_request empty_world)
       = Returned 500 (ErrorBody ''Internal server error'')
   \<and> fst (build_steps no_git_env demo_url ''app'' ''/tmp/builds/app'' empty_world)
       = Inl (OSError ''[Errno 2] No such file or directory: git'')
   \<and> fst (teardown no_git_env ''/tmp/builds/app''
            (snd (build_steps no_git_env demo_url ''app'' ''/tmp/builds/app'' empty_world)))
       = Inr ()
   \<and> fst (build_image no_git_env demo_request empty_world)
       = Returned 500 (ErrorBody ''[Errno 2] No such file or directory: git'')
   \<and> is_json long_request \<and> read_repo_url long_request = Inr long_url \<and> long_url \<noteq> []
   \<and> fst (build_steps long_name_env long_url long_name (''/tmp/builds/'' @ long_name) empty_world)
       = Inl (RuntimeError (''Failed to clean build directory after 3 attempts: /tmp/builds/''
                              @ long_name))
   \<and> fst (teardown long_name_env (''/tmp/builds/'' @ long_name)
            (snd (build_steps long_name_env long_url long_name (''/tmp/builds/'' @ long_name)
                    empty_world)))
       = Inl (OSError ''[Errno 36] File name too long'')
   \<and> fst (build_image long_name_env long_request empty_world)
       = Returned 500 (ErrorBody ''Internal server error'')"
proof -
  let ?parsed = "\<lparr>scheme = ''https'', netloc = ''github.com'', url_path = ''/user/app.git''\<rparr>"
  let ?lparsed = "\<lparr>scheme = ''https'', netloc = ''github.com'', url_path = ''/u/'' @ long_name\<rparr>"
  have bad: "urlparse bad_url_env demo_url = Inl (ValueError ''Invalid IPv6 URL'')"
    by (simp add: bad_url_env_def demo_env_def)
  from failure_responses [OF demo_request_valid, where env = bad_url_env and w = empty_world,
      THEN conjunct1, rule_format, OF bad]
  have g: "fst (build_image bad_url_env demo_request empty_world)
       = Returned 500 (ErrorBody ''Internal server error'')" .
  have parsed: "urlparse no_git_env demo_url = Inr ?parsed"
    by (simp add: no_git_env_def demo_env_def)
  have sch: "scheme ?parsed \<noteq> []" "netloc ?parsed \<noteq> []"
    by simp_all
  have name: "repo_name_of no_git_env ?parsed = ''app''"
    by (simp add: repo_name_of_def no_git_env_def demo_env_def)
  have dir: "build_dir_of ''app'' = ''/tmp/builds/app''"
    by (simp add: build_dir_of_def)
  have steps: "fst (build_steps no_git_env demo_url ''app'' ''/tmp/builds/app'' empty_world)
       = Inl (OSError ''[Errno 2] No such file or directory: git'')"
    by code_simp
  then obtain w1 where steps': "build_steps no_git_env demo_url ''app'' ''/tmp/builds/app'' empty_world
       = (Inl (OSError ''[Errno 2] No such file or directory: git''), w1)"
    by (cases "build_steps no_git_env demo_url ''app'' ''/tmp/builds/app'' empty_world") auto
  have td: "fst (teardown no_git_env ''/tmp/builds/app''
            (snd (build_steps no_git_env demo_url ''app'' ''/tmp/builds/app'' empty_world)))
       = Inr ()"
    by (rule teardown_accepted) (simp add: no_git_env_def demo_env_def)
  have steps'': "build_steps no_git_env demo_url (repo_name_of no_git_env ?parsed)
                   (build_dir_of (repo_name_of no_git_env ?parsed)) empty_world
       = (Inl (OSError ''[Errno 2] No such file or directory: git''), w1)"
    unfolding name dir by (rule steps')
  from failure_responses [OF demo_request_valid, where env = no_git_env and w = empty_world,
      THEN conjunct2, rule_format, OF conjI [OF parsed conjI [OF sch(1) conjI [OF sch(2) steps'']]]]
  have "fst (build_image no_git_env demo_request empty_world)
          = (case fst (teardown no_git_env ''/tmp/builds/app'' w1) of
               Inr u \<Rightarrow> Returned 500 (ErrorBody (str_exn (OSError ''[Errno 2] No such file or directory: git'')))
             | Inl e' \<Rightarrow> Returned 500 (ErrorBody ''Internal server error''))"
    unfolding name dir .
  moreover have "fst (teardown no_git_env ''/tmp/builds/app'' w1) = Inr ()"
    using td unfolding steps' by simp
  ultimately have s: "fst (build_image no_git_env demo_request empty_world)
       = Returned 500 (ErrorBody ''[Errno 2] No such file or directory: git'')"
    by simp
  have lparsed: "urlparse long_name_env long_url = Inr ?lparsed"
    by (simp add: long_name_env_def demo_env_def)
  have lsch: "scheme ?lparsed \<noteq> []" "netloc ?lparsed \<noteq> []"
    by simp_all
  have lname: "repo_name_of long_name_env ?lparsed = long_name"
    by (simp add: repo_name_of_def long_name_env_def demo_env_def long_name_def)
  have ldir: "build_dir_of long_name = ''/tmp/builds/'' @ long_name"
    by (simp add: build_dir_of_def)
  have lsteps: "fst (build_steps long_name_env long_url long_name (''/tmp/builds/'' @ long_name)
                       empty_world)
       = Inl (RuntimeError (''Failed to clean build directory after 3 attempts: /tmp/builds/''
                              @ long_name))"
    by code_simp
  then obtain v1 where lsteps': "build_steps long_name_env long_url long_name
         (''/tmp/builds/'' @ long_name) empty_world
       = (Inl (RuntimeError (''Failed to clean build directory after 3 attempts: /tmp/builds/''
                              @ long_name)), v1)"
    by (cases "build_steps long_name_env long_url long_name (''/tmp/builds/'' @ long_name)
                 empty_world") auto
  have ltd: "fst (teardown long_name_env (''/tmp/builds/'' @ long_name)
            (snd (build_steps long_name_env long_url long_name (''/tmp/builds/'' @ long_name)
                    empty_world)))
       = Inl (OSError ''[Errno 36] File name too long'')"
    by code_simp
  have lsteps'': "build_steps long_name_env long_url (repo_name_of long_name_env ?lparsed)
                   (build_dir_of (repo_name_of long_name_env ?lparsed)) empty_world
       = (Inl (RuntimeError (''Failed to clean build directory after 3 attempts: /tmp/builds/''
                              @ long_name)), v1)"
    unfolding lname ldir by (rule lsteps')
  from failure_responses [OF long_request_valid, where env = long_name_env and w = empty_world,
      THEN conjunct2, rule_format,
      OF conjI [OF lparsed conjI [OF lsch(1) conjI [OF lsch(2) lsteps'']]]]
  have "fst (build_image long_name_env long_request empty_world)
          = (case fst (teardown long_name_env (''/tmp/builds/'' @ long_name) v1) of
               Inr u \<Rightarrow> Returned 500 (ErrorBody (str_exn (RuntimeError
                          (''Failed to clean build directory after 3 attempts: /tmp/builds/''
                              @ long_name))))
             | Inl e' \<Rightarrow> Returned 500 (ErrorBody ''Internal server error''))"
    unfolding lname ldir .
  moreover have "fst (teardown long_name_env (''/tmp/builds/'' @ long_name) v1)
                   = Inl (OSError ''[Errno 36] File name too long'')"
    using ltd unfolding lsteps' by simp
  ultimately have l: "fst (build_image long_name_env long_request empty_world)
       = Returned 500 (ErrorBody ''Internal server error'')"
    by simp
  show ?thesis
    using demo_request_valid bad g steps td s long_request_valid lsteps ltd l
    by (intro conjI)
qed

subsection \<open>Clone failures\<close>

lemma build_steps_clone_failed:
  assumes "clean_build_dir env p w = (Inr u, w1)" and "git_clone env url = Inl e"
  shows "build_steps env url repo_name p w = (Inl (clone_except e), emit (GitClone url p) w1)"
  using assms
  by (simp add: build_steps_def clone_repository_def subprocess_run_git_clone_def)

text \<open>
  Claim C6.  When a request passes the checks of the handler, the workspace is prepared
  and \<^verbatim>\<open>git clone\<close> exits with a non-zero status, the fetcher classifies the failure from
  the trimmed error output, in this order: the marker \<^verbatim>\<open>Repository not found\<close> gives the
  repository-not-found message, the prompt \<^verbatim>\<open>could not read Username\<close> gives the
  authentication message, anything else gives \<^verbatim>\<open>Git clone failed:\<close> followed by the
  diagnostic text; the caller receives that message with status 500.
\<close>

theorem clone_failure_classified:
  assumes "is_json req" and "read_repo_url req = Inr url" and "url \<noteq> []"
    and "urlparse env url = Inr parsed" and "scheme parsed \<noteq> []" and "netloc parsed \<noteq> []"
    and "clean_build_dir env (build_dir_of (repo_name_of env parsed)) w = (Inr u, w1)"
    and "git_clone env url = Inl (CalledProcessError err)"
  shows "fst (clone_repository env url (build_dir_of (repo_name_of env parsed)) w1)
           = Inl (if py_in ''Repository not found'' (py_strip err)
                  then ValueError ''Repository not found or private (needs access token)''
                  else if py_in ''could not read Username'' (py_strip err)
                  then ValueError ''Authentication failed - use HTTPS with token''
                  else RuntimeError (''Git clone failed: '' @ py_strip err))
         \<and> fst (build_image env req w)
           = Returned 500 (ErrorBody
               (if py_in ''Repository not found'' (py_strip err)
                then ''Repository not found or private (needs access token)''
                else if py_in ''could not read Username'' (py_strip err)
                then ''Authentication failed - use HTTPS with token''
                else ''Git clone failed: '' @ py_strip err))"
proof -
  have "fst (build_image env req w)
          = Returned 500 (ErrorBody (str_exn (clone_except (CalledProcessError err))))"
    using assms(1-6) build_steps_clone_failed [OF assms(7,8)] clean_build_dir_accepted [OF assms(7)]
    by (rule build_image_steps_failed_accepted)
  moreover have "fst (clone_repository env url (build_dir_of (repo_name_of env parsed)) w1)
                   = Inl (clone_except (CalledProcessError err))"
    using assms(8) by (simp add: clone_repository_def subprocess_run_git_clone_def)
  ultimately show ?thesis
    by (simp add: Let_def)
qed

theorem clone_failure_classified_witness:
  "is_json demo_request \<and> read_repo_url demo_request = Inr demo_url \<and> demo_url \<noteq> []
   \<and> git_clone not_found_env demo_url = Inl (CalledProcessError ''remote: Repository not found.\<newline>'')
   \<and> fst (clean_build_dir not_found_env ''/tmp/builds/app'' empty_world) = Inr ()
   \<and> fst (build_image not_found_env demo_request empty_world)
       = Returned 500 (ErrorBody ''Repository not found or private (needs access token)'')"
proof -
  have parsed: "urlparse not_found_env demo_url
      = Inr \<lparr>scheme = ''https'', netloc = ''github.com'', url_path = ''/user/app.git''\<rparr>"
    by (simp add: not_found_env_def demo_env_def)
  have dir: "build_dir_of (repo_name_of not_found_env
      \<lparr>scheme = ''https'', netloc = ''github.com'', url_path = ''/user/app.git''\<rparr>)
      = ''/tmp/builds/app''"
    by (simp add: repo_name_of_def build_dir_of_def not_found_env_def demo_env_def)
  have clean: "fst (clean_build_dir not_found_env ''/tmp/builds/app'' empty_world) = Inr ()"
    by code_simp
  then obtain w1 where c: "clean_build_dir not_found_env ''/tmp/builds/app'' empty_world = (Inr (), w1)"
    by (cases "clean_build_dir not_found_env ''/tmp/builds/app'' empty_world") auto
  have clone: "git_clone not_found_env demo_url
      = Inl (CalledProcessError ''remote: Repository not found.\<newline>'')"
    by (simp add: not_found_env_def demo_env_def)
  have marker: "py_in ''Repository not found'' (py_strip ''remote: Repository not found.\<newline>'')"
    by code_simp
  note inst = clone_failure_classified [OF demo_request_valid parsed, unfolded dir, simplified, OF c clone]
  from inst marker
  have "fst (build_image not_found_env demo_request empty_world)
       = Returned 500 (ErrorBody ''Repository not found or private (needs access token)'')"
    by simp
  with demo_request_valid clone clean show ?thesis
    by simp
qed

subsection \<open>Teardown\<close>

lemma new_events_teardown:
  "new_events w (snd (teardown env p w))
     = (if fs w p = None then [Exists p] else [Exists p, Rmtree p])"
  by (simp add: new_events_def trace_teardown)






subsection \<open>Workspace prepare\<close>








subsection \<open>The engine handle\<close>

lemma build_docker_image_no_client:
  "\<not> client env \<Longrightarrow>
   build_docker_image env p repo_name w = (Inl (RuntimeError ''Docker service unavailable''), w)"
  by (simp add: build_docker_image_def)






subsection \<open>Recipe synthesis\<close>

lemma py_in_map: "py_in needle hay \<Longrightarrow> py_in (map f needle) (map f hay)"
proof (induction hay)
  case Nil
  then show ?case by simp
next
  case (Cons c cs)
  from Cons.prems have "take (length needle) (c # cs) = needle \<or> py_in needle cs"
    by simp
  then show ?case
  proof
    assume "take (length needle) (c # cs) = needle"
    then have "map f (take (length needle) (c # cs)) = map f needle"
      by simp
    then have "take (length (map f needle)) (map f (c # cs)) = map f needle"
      by (simp only: take_map length_map)
    then show ?thesis by simp
  next
    assume "py_in needle cs"
    then have "py_in (map f needle) (map f cs)" by (rule Cons.IH)
    then show ?thesis by simp
  qed
qed

lemma marker_lower: "py_in ''github.io'' url \<Longrightarrow> py_in ''github.io'' (py_lower url)"
proof -
  assume "py_in ''github.io'' url"
  then have "py_in (map py_lower_char ''github.io'') (map py_lower_char url)"
    by (rule py_in_map)
  moreover have "map py_lower_char ''github.io'' = ''github.io''"
    by (simp add: py_lower_char_def)
  ultimately show ?thesis by (simp add: py_lower_def)
qed

lemma clone_repository_ok:
  "git_clone env url = Inr files \<Longrightarrow>
   clone_repository env url p w
     = (Inr (), logger INFO (''Cloned repository: '' @ url)
                  (emit (GitClone url p) (w\<lparr>fs := (fs w)(p \<mapsto> files)\<rparr>)))"
  by (simp add: clone_repository_def subprocess_run_git_clone_def)

lemma github_pages_has:
  assumes "fs w p = Some d" and "map_of d ''Dockerfile'' = Some c"
  shows "github_pages_dockerfile env url p w
           = (Inr (), if py_in ''github.io'' (py_lower url)
                      then emit (Exists (p @ ''/Dockerfile'')) w else w)"
  using assms by (simp add: github_pages_dockerfile_def file_exists_def)

lemma github_pages_writes:
  assumes "py_in ''github.io'' (py_lower url)" and "fs w p = Some d"
    and "map_of d ''Dockerfile'' = None"
    and "github_pages_dockerfile env url p w = (Inr u, w')"
  shows "fs w' = (fs w)(p \<mapsto> AList.update ''Dockerfile'' static_template d)"
    and "trace w' = trace w @ [Exists (p @ ''/Dockerfile''), OpenWrite (p @ ''/Dockerfile'')]"
  using assms
  by (auto simp: github_pages_dockerfile_def file_exists_def write_file_def now_def
           split: option.splits)

lemma build_docker_image_except_world:
  "trace (snd (build_docker_image_except e w)) = trace w"
  "fs (snd (build_docker_image_except e w)) = fs w"
  by (cases e; simp)+

lemma build_docker_image_recipe_events:
  assumes "fs w p = Some d" and "map_of d ''Dockerfile'' = Some c"
  shows "trace (snd (build_docker_image env p repo_name w))
           = trace w @ (if client env
                        then [Exists (p @ ''/Dockerfile''),
                              ImagesBuild p (Some d) (''builder/'' @ replace_dots repo_name @ '':latest'')]
                        else [])"
proof (cases "client env")
  case False
  then show ?thesis by (simp add: build_docker_image_no_client)
next
  case True
  let ?tag = "''builder/'' @ replace_dots repo_name @ '':latest''"
  let ?w1 = "emit (Exists (p @ ''/Dockerfile'')) w"
  let ?w2 = "emit (ImagesBuild p (Some d) ?tag) ?w1"
  have en: "ensure_dockerfile env p w = (Inr (), ?w1)"
    using assms by (simp add: ensure_dockerfile_def file_exists_def)
  have "trace (snd (build_docker_image_try env p repo_name w)) = trace ?w2"
    using assms
    by (simp add: build_docker_image_try_def en client_images_build_def Let_def
             split: sum.splits prod.splits)
  moreover have "trace (snd (build_docker_image env p repo_name w))
                   = trace (snd (build_docker_image_try env p repo_name w))"
    using True
    by (simp add: build_docker_image_def build_docker_image_except_world
             split: prod.splits sum.splits)
       (metis build_docker_image_except_world(1) snd_conv)
  ultimately show ?thesis
    using True by simp
qed

lemma build_image_valid_trace:
  assumes "is_json req" and "read_repo_url req = Inr url" and "url \<noteq> []"
    and "urlparse env url = Inr parsed" and "scheme parsed \<noteq> []" and "netloc parsed \<noteq> []"
    and "trace (snd (build_steps env url (repo_name_of env parsed)
                  (build_dir_of (repo_name_of env parsed)) w)) = trace w @ evs"
  shows "\<exists>t. new_events w (snd (build_image env req w)) = evs @ t
             \<and> filter is_write t = [] \<and> filter is_engine_build t = []"
proof -
  let ?p = "build_dir_of (repo_name_of env parsed)"
  let ?r = "build_try env url (repo_name_of env parsed) ?p w"
  have fin: "trace (snd (build_image env req w)) = trace (snd (teardown env ?p (snd ?r)))"
    using assms(1-6) by (rule build_image_valid_world)
  have "trace (snd ?r) = trace w @ evs"
    using assms(7) by (simp add: build_try_world)
  then have "trace (snd (build_image env req w))
               = trace w @ (evs @ (if fs (snd ?r) ?p = None then [Exists ?p]
                                   else [Exists ?p, Rmtree ?p]))"
    by (simp add: fin trace_teardown)
  then have "new_events w (snd (build_image env req w))
               = evs @ (if fs (snd ?r) ?p = None then [Exists ?p] else [Exists ?p, Rmtree ?p])"
    by (rule new_events_append)
  then show ?thesis
    by (intro exI [of _ "if fs (snd ?r) ?p = None then [Exists ?p] else [Exists ?p, Rmtree ?p]"])
       simp
qed

lemma clean_build_dir_events:
  assumes "clean_build_dir env p w = (r, w')"
  shows "\<exists>evs. trace w' = trace w @ evs \<and> filter is_write evs = []
           \<and> filter is_engine_build evs = []"
  using clean_loop_events [OF assms [unfolded clean_build_dir_def]] by blast

text \<open>
  Claim C4.  When a request passes the checks of the handler, the workspace is prepared
  and the clone brings a \<^verbatim>\<open>Dockerfile\<close> at the root of the workspace, the workspace
  is what the repository provided after the clone, after the GitHub Pages step and after
  the generic generation step, whatever the URL and the other files are: no file is
  opened for writing during the request, and the engine, when it is invoked, builds from
  exactly the files of the repository.
\<close>

theorem repository_recipe_kept:
  assumes "is_json req" and "read_repo_url req = Inr url" and "url \<noteq> []"
    and "urlparse env url = Inr parsed" and "scheme parsed \<noteq> []" and "netloc parsed \<noteq> []"
    and "clean_build_dir env (build_dir_of (repo_name_of env parsed)) w = (Inr u, w1)"
    and "git_clone env url = Inr files" and "map_of files ''Dockerfile'' = Some c"
  shows "let p = build_dir_of (repo_name_of env parsed);
             w2 = snd (clone_repository env url p w1);
             w3 = snd (github_pages_dockerfile env url p w2);
             w4 = snd (ensure_dockerfile env p w3);
             evs = new_events w (snd (build_image env req w))
         in fs w2 p = Some files
            \<and> fst (github_pages_dockerfile env url p w2) = Inr () \<and> fs w3 p = Some files
            \<and> fst (ensure_dockerfile env p w3) = Inr () \<and> fs w4 p = Some files
            \<and> filter is_write evs = []
            \<and> filter is_engine_build evs
                = (if client env
                   then [ImagesBuild p (Some files)
                           (''builder/'' @ replace_dots (repo_name_of env parsed) @ '':latest'')]
                   else [])"
proof -
  let ?p = "build_dir_of (repo_name_of env parsed)"
  let ?rn = "repo_name_of env parsed"
  let ?tag = "''builder/'' @ replace_dots ?rn @ '':latest''"
  let ?w2 = "logger INFO (''Cloned repository: '' @ url)
               (emit (GitClone url ?p) (w1\<lparr>fs := (fs w1)(?p \<mapsto> files)\<rparr>))"
  let ?g = "if py_in ''github.io'' (py_lower url) then [Exists (?p @ ''/Dockerfile'')] else []"
  let ?w3 = "if py_in ''github.io'' (py_lower url) then emit (Exists (?p @ ''/Dockerfile'')) ?w2
             else ?w2"
  let ?b = "if client env then [Exists (?p @ ''/Dockerfile''), ImagesBuild ?p (Some files) ?tag]
            else []"
  have cl: "clone_repository env url ?p w1 = (Inr (), ?w2)"
    using assms(8) by (rule clone_repository_ok)
  have fs2: "fs ?w2 ?p = Some files"
    by simp
  have gh: "github_pages_dockerfile env url ?p ?w2 = (Inr (), ?w3)"
    using fs2 assms(9) by (rule github_pages_has)
  have fs3: "fs ?w3 ?p = Some files"
    by simp
  have en: "ensure_dockerfile env ?p ?w3
              = (Inr (), emit (Exists (?p @ ''/Dockerfile'')) ?w3)"
    using fs3 assms(9) by (simp add: ensure_dockerfile_def file_exists_def)
  from clean_build_dir_events [OF assms(7)] obtain evs1 where
    e1: "trace w1 = trace w @ evs1" "filter is_write evs1 = []" "filter is_engine_build evs1 = []"
    by blast
  have tr3: "trace ?w3 = trace w @ (evs1 @ [GitClone url ?p] @ ?g)"
    using e1(1) by simp
  have st: "build_steps env url ?rn ?p w = build_docker_image env ?p ?rn ?w3"
    using assms(7) cl gh by (simp add: build_steps_def)
  have "trace (snd (build_steps env url ?rn ?p w)) = trace ?w3 @ ?b"
    unfolding st using fs3 assms(9) by (rule build_docker_image_recipe_events)
  then have "trace (snd (build_steps env url ?rn ?p w))
               = trace w @ (evs1 @ [GitClone url ?p] @ ?g @ ?b)"
    using tr3 by simp
  from build_image_valid_trace [OF assms(1-6) this] obtain t where
    t: "new_events w (snd (build_image env req w)) = (evs1 @ [GitClone url ?p] @ ?g @ ?b) @ t"
       "filter is_write t = []" "filter is_engine_build t = []"
    by blast
  have w: "filter is_write (new_events w (snd (build_image env req w))) = []"
    using t e1 by simp
  have b: "filter is_engine_build (new_events w (snd (build_image env req w)))
             = (if client env then [ImagesBuild ?p (Some files) ?tag] else [])"
    using t e1 by simp
  have a2: "snd (clone_repository env url ?p w1) = ?w2"
    using cl by simp
  show ?thesis
    unfolding Let_def a2 gh snd_conv fst_conv en using w b by simp
qed

theorem repository_recipe_kept_witness:
  "is_json pages_request \<and> read_repo_url pages_request = Inr pages_url \<and> pages_url \<noteq> []
   \<and> py_in ''github.io'' pages_url
   \<and> git_clone own_recipe_env pages_url
       = Inr [(''Dockerfile'', ''FROM scratch''), (''index.html'', ''hi'')]
   \<and> map_of [(''Dockerfile'', ''FROM scratch''), (''index.html'', ''hi'')] ''Dockerfile''
       = Some ''FROM scratch''
   \<and> filter is_write (new_events empty_world
         (snd (build_image own_recipe_env pages_request empty_world))) = []
   \<and> filter is_engine_build (new_events empty_world
         (snd (build_image own_recipe_env pages_request empty_world)))
       = [ImagesBuild ''/tmp/builds/my-site.github''
            (Some [(''Dockerfile'', ''FROM scratch''), (''index.html'', ''hi'')])
            ''builder/my-site-github:latest'']"
proof -
  let ?parsed = "\<lparr>scheme = ''https'', netloc = ''github.com'',
                   url_path = ''/user/my-site.github.io''\<rparr>"
  let ?files = "[(''Dockerfile'', ''FROM scratch''), (''index.html'', ''hi'')]"
  have valid: "is_json pages_request" "read_repo_url pages_request = Inr pages_url"
    "pages_url \<noteq> []"
    by (simp_all add: pages_request_def read_repo_url_def get_json_def pages_url_def
                      py_strip_def is_space_def)
  have parsed: "urlparse own_recipe_env pages_url = Inr ?parsed"
    by (simp add: own_recipe_env_def pages_env_def demo_env_def)
  have sch: "scheme ?parsed \<noteq> []" "netloc ?parsed \<noteq> []"
    by simp_all
  have name: "repo_name_of own_recipe_env ?parsed = ''my-site.github''"
    by (simp add: repo_name_of_def own_recipe_env_def pages_env_def demo_env_def)
  have dir: "build_dir_of ''my-site.github'' = ''/tmp/builds/my-site.github''"
    by (simp add: build_dir_of_def)
  have tag: "''builder/'' @ replace_dots ''my-site.github'' @ '':latest''
               = ''builder/my-site-github:latest''"
    by (simp add: replace_dots_def)
  have marker: "py_in ''github.io'' pages_url"
    by code_simp
  have "fst (clean_build_dir own_recipe_env ''/tmp/builds/my-site.github'' empty_world) = Inr ()"
    by code_simp
  then obtain w1 where
    c: "clean_build_dir own_recipe_env ''/tmp/builds/my-site.github'' empty_world = (Inr (), w1)"
    by (cases "clean_build_dir own_recipe_env ''/tmp/builds/my-site.github'' empty_world") auto
  have c': "clean_build_dir own_recipe_env (build_dir_of (repo_name_of own_recipe_env ?parsed))
              empty_world = (Inr (), w1)"
    unfolding name dir by (rule c)
  have clone: "git_clone own_recipe_env pages_url = Inr ?files"
    by (simp add: own_recipe_env_def)
  have recipe: "map_of ?files ''Dockerfile'' = Some ''FROM scratch''"
    by simp
  have cli: "client own_recipe_env"
    by (simp add: own_recipe_env_def pages_env_def demo_env_def)
  note t = repository_recipe_kept [OF valid parsed sch c' clone recipe,
      unfolded Let_def name dir tag]
  from t have "filter is_write (new_events empty_world
         (snd (build_image own_recipe_env pages_request empty_world))) = []"
    and "filter is_engine_build (new_events empty_world
         (snd (build_image own_recipe_env pages_request empty_world)))
       = (if client own_recipe_env
          then [ImagesBuild ''/tmp/builds/my-site.github'' (Some ?files)
                  ''builder/my-site-github:latest'']
          else [])"
    by blast+
  with cli valid marker clone recipe show ?thesis
    by simp
qed

text \<open>
  Claim C7.  When a request passes the checks of the handler, its URL contains
  \<^verbatim>\<open>github.io\<close>, the workspace is prepared, the clone brings no \<^verbatim>\<open>Dockerfile\<close> and the
  GitHub Pages step completes, the workspace holds the files of the repository and a
  \<^verbatim>\<open>Dockerfile\<close> that is exactly the static template, whatever the other files are: the
  recipe is written once, the generic generation does not replace it, and the engine,
  when it is invoked, builds from that workspace.
\<close>

theorem github_pages_static_recipe:
  assumes "is_json req" and "read_repo_url req = Inr url" and "url \<noteq> []"
    and "urlparse env url = Inr parsed" and "scheme parsed \<noteq> []" and "netloc parsed \<noteq> []"
    and "py_in ''github.io'' url"
    and "clean_build_dir env (build_dir_of (repo_name_of env parsed)) w = (Inr u, w1)"
    and "git_clone env url = Inr files" and "map_of files ''Dockerfile'' = None"
    and "fst (github_pages_dockerfile env url (build_dir_of (repo_name_of env parsed))
               (snd (clone_repository env url (build_dir_of (repo_name_of env parsed)) w1)))
           = Inr ()"
  shows "let p = build_dir_of (repo_name_of env parsed);
             workspace = AList.update ''Dockerfile'' static_template files;
             w2 = snd (clone_repository env url p w1);
             w3 = snd (github_pages_dockerfile env url p w2);
             evs = new_events w (snd (build_image env req w))
         in fs w3 p = Some workspace
            \<and> map_of workspace ''Dockerfile'' = Some (DOCKERFILE_TEMPLATES Static)
            \<and> filter is_write evs = [OpenWrite (p @ ''/Dockerfile'')]
            \<and> filter is_engine_build evs
                = (if client env
                   then [ImagesBuild p (Some workspace)
                           (''builder/'' @ replace_dots (repo_name_of env parsed) @ '':latest'')]
                   else [])"
proof -
  let ?p = "build_dir_of (repo_name_of env parsed)"
  let ?rn = "repo_name_of env parsed"
  let ?tag = "''builder/'' @ replace_dots ?rn @ '':latest''"
  let ?ws = "AList.update ''Dockerfile'' static_template files"
  let ?w2 = "logger INFO (''Cloned repository: '' @ url)
               (emit (GitClone url ?p) (w1\<lparr>fs := (fs w1)(?p \<mapsto> files)\<rparr>))"
  let ?b = "if client env then [Exists (?p @ ''/Dockerfile''), ImagesBuild ?p (Some ?ws) ?tag]
            else []"
  have cl: "clone_repository env url ?p w1 = (Inr (), ?w2)"
    using assms(9) by (rule clone_repository_ok)
  then have a2: "snd (clone_repository env url ?p w1) = ?w2"
    by simp
  have fs2: "fs ?w2 ?p = Some files"
    by simp
  obtain w3 where gh: "github_pages_dockerfile env url ?p ?w2 = (Inr (), w3)"
    using assms(11) unfolding a2 by (cases "github_pages_dockerfile env url ?p ?w2") auto
  then have a3: "snd (github_pages_dockerfile env url ?p ?w2) = w3"
    by simp
  have marker: "py_in ''github.io'' (py_lower url)"
    using assms(7) by (rule marker_lower)
  note wr = github_pages_writes [OF marker fs2 assms(10) gh]
  have fs3: "fs w3 ?p = Some ?ws"
    using wr(1) by simp
  have recipe: "map_of ?ws ''Dockerfile'' = Some static_template"
    by (simp add: update_conv')
  from clean_build_dir_events [OF assms(8)] obtain evs1 where
    e1: "trace w1 = trace w @ evs1" "filter is_write evs1 = []" "filter is_engine_build evs1 = []"
    by blast
  have tr3: "trace w3 = trace w @ (evs1 @ [GitClone url ?p, Exists (?p @ ''/Dockerfile''),
                                            OpenWrite (?p @ ''/Dockerfile'')])"
    using wr(2) e1(1) by simp
  have st: "build_steps env url ?rn ?p w = build_docker_image env ?p ?rn w3"
    using assms(8) cl gh by (simp add: build_steps_def)
  have "trace (snd (build_steps env url ?rn ?p w)) = trace w3 @ ?b"
    unfolding st using fs3 recipe by (rule build_docker_image_recipe_events)
  then have "trace (snd (build_steps env url ?rn ?p w))
               = trace w @ (evs1 @ [GitClone url ?p, Exists (?p @ ''/Dockerfile''),
                                     OpenWrite (?p @ ''/Dockerfile'')] @ ?b)"
    using tr3 by simp
  from build_image_valid_trace [OF assms(1-6) this] obtain t where
    t: "new_events w (snd (build_image env req w))
          = (evs1 @ [GitClone url ?p, Exists (?p @ ''/Dockerfile''),
                     OpenWrite (?p @ ''/Dockerfile'')] @ ?b) @ t"
       "filter is_write t = []" "filter is_engine_build t = []"
    by blast
  have w: "filter is_write (new_events w (snd (build_image env req w)))
             = [OpenWrite (?p @ ''/Dockerfile'')]"
    using t e1 by simp
  have b: "filter is_engine_build (new_events w (snd (build_image env req w)))
             = (if client env then [ImagesBuild ?p (Some ?ws) ?tag] else [])"
    using t e1 by simp
  show ?thesis
    unfolding Let_def a2 a3 using fs3 recipe w b by simp
qed

theorem github_pages_static_recipe_witness:
  "is_json pages_request \<and> read_repo_url pages_request = Inr pages_url \<and> pages_url \<noteq> []
   \<and> py_in ''github.io'' pages_url
   \<and> git_clone pages_env pages_url = Inr [(''package.json'', ''{}'')]
   \<and> map_of [(''package.json'', ''{}'')] ''Dockerfile'' = None
   \<and> fst (detect_project_type ''/tmp/builds/my-site.github''
            (snd (clone_repository pages_env pages_url ''/tmp/builds/my-site.github'' empty_world)))
       = Node
   \<and> filter is_write (new_events empty_world
         (snd (build_image pages_env pages_request empty_world)))
       = [OpenWrite ''/tmp/builds/my-site.github/Dockerfile'']
   \<and> filter is_engine_build (new_events empty_world
         (snd (build_image pages_env pages_request empty_world)))
       = [ImagesBuild ''/tmp/builds/my-site.github''
            (Some [(''package.json'', ''{}''), (''Dockerfile'', static_template)])
            ''builder/my-site-github:latest'']"
proof -
  let ?parsed = "\<lparr>scheme = ''https'', netloc = ''github.com'',
                   url_path = ''/user/my-site.github.io''\<rparr>"
  let ?files = "[(''package.json'', ''{}'')]"
  have valid: "is_json pages_request" "read_repo_url pages_request = Inr pages_url"
    "pages_url \<noteq> []"
    by (simp_all add: pages_request_def read_repo_url_def get_json_def pages_url_def
                      py_strip_def is_space_def)
  have parsed: "urlparse pages_env pages_url = Inr ?parsed"
    by (simp add: pages_env_def demo_env_def)
  have sch: "scheme ?parsed \<noteq> []" "netloc ?parsed \<noteq> []"
    by simp_all
  have name: "repo_name_of pages_env ?parsed = ''my-site.github''"
    by (simp add: repo_name_of_def pages_env_def demo_env_def)
  have dir: "build_dir_of ''my-site.github'' = ''/tmp/builds/my-site.github''"
    by (simp add: build_dir_of_def)
  have tag: "''builder/'' @ replace_dots ''my-site.github'' @ '':latest''
               = ''builder/my-site-github:latest''"
    by (simp add: replace_dots_def)
  have path: "''/tmp/builds/my-site.github'' @ ''/Dockerfile''
               = ''/tmp/builds/my-site.github/Dockerfile''"
    by simp
  have ws: "AList.update ''Dockerfile'' static_template ?files
              = [(''package.json'', ''{}''), (''Dockerfile'', static_template)]"
    by simp
  have marker: "py_in ''github.io'' pages_url"
    by code_simp
  have "fst (clean_build_dir pages_env ''/tmp/builds/my-site.github'' empty_world) = Inr ()"
    by code_simp
  then obtain w1 where
    c: "clean_build_dir pages_env ''/tmp/builds/my-site.github'' empty_world = (Inr (), w1)"
    by (cases "clean_build_dir pages_env ''/tmp/builds/my-site.github'' empty_world") auto
  have c': "clean_build_dir pages_env (build_dir_of (repo_name_of pages_env ?parsed))
              empty_world = (Inr (), w1)"
    unfolding name dir by (rule c)
  have clone: "git_clone pages_env pages_url = Inr ?files"
    by (simp add: pages_env_def)
  have none: "map_of ?files ''Dockerfile'' = None"
    by simp
  have cli: "client pages_env"
    by (simp add: pages_env_def demo_env_def)
  have "fst (github_pages_dockerfile pages_env pages_url ''/tmp/builds/my-site.github''
               (snd (clone_repository pages_env pages_url ''/tmp/builds/my-site.github''
                      (snd (clean_build_dir pages_env ''/tmp/builds/my-site.github'' empty_world)))))
          = Inr ()"
    by code_simp
  then have step: "fst (github_pages_dockerfile pages_env pages_url
                     (build_dir_of (repo_name_of pages_env ?parsed))
               (snd (clone_repository pages_env pages_url
                       (build_dir_of (repo_name_of pages_env ?parsed)) w1)))
          = Inr ()"
    unfolding name dir c by simp
  have detect: "fst (detect_project_type ''/tmp/builds/my-site.github''
            (snd (clone_repository pages_env pages_url ''/tmp/builds/my-site.github'' empty_world)))
       = Node"
    by code_simp
  note t = github_pages_static_recipe [OF valid parsed sch marker c' clone none step,
      unfolded Let_def name dir tag path ws]
  from t have "filter is_write (new_events empty_world
         (snd (build_image pages_env pages_request empty_world)))
       = [OpenWrite ''/tmp/builds/my-site.github/Dockerfile'']"
    and "filter is_engine_build (new_events empty_world
         (snd (build_image pages_env pages_request empty_world)))
       = (if client pages_env
          then [ImagesBuild ''/tmp/builds/my-site.github''
                  (Some [(''package.json'', ''{}''), (''Dockerfile'', static_template)])
                  ''builder/my-site-github:latest'']
          else [])"
    by blast+
  with cli valid marker clone none detect show ?thesis
    by simp
qed

end
